theory Spec2Isabelle
  imports Main "HOL-Library.Word"
begin

section \<open>The oblivious-tree model of catboost/libs/model/model.h\<close>

text \<open>
  The header declares two structs, \<open>TObliviousTrees\<close> and \<open>TFullModel\<close>, and defines
  inline the operations embedded below. The sizes, offsets and depths of the store are C++
  \<open>int\<close> values modelled as \<open>int\<close> (vectors are far shorter than \<open>2^31\<close>, so they do not
  overflow). A descriptor's \<open>FeatureIndex\<close> is a 32-bit word and a \<open>size_t\<close> a 64-bit word,
  since the feature counts add and convert at those widths.
  \<open>double\<close> leaf values, the feature descriptors of features.h and the split and CTR
  types of split.h are not declared in this header; they are type parameters.
\<close>

subsection \<open>Errors\<close>

text \<open>
  \<open>AssertionFailed\<close>: a failing \<open>Y_ASSERT\<close>. \<open>yexception msg\<close>: the exception thrown by a
  failing \<open>Y_ENSURE(cond, msg)\<close>. \<open>UndefinedBehaviour\<close>: an out-of-range read or an
  integer operation without a defined result. \<open>ContractViolation\<close>: a violated
  precondition of an operation whose body is not in this header.
\<close>

datatype error = AssertionFailed | yexception string | UndefinedBehaviour | ContractViolation

text \<open>
  Modelled from the spec: the macro \<open>Y_ASSERT\<close> comes from util/ and is not part of the
  sources. The spec calls its failure an assertion-level fatal error; it is modelled as
  checked.
\<close>

definition Y_ASSERT :: "bool \<Rightarrow> error + unit" where
  "Y_ASSERT cond = (if cond then Inr () else Inl AssertionFailed)"

text \<open>
  Modelled from the spec: the macro \<open>Y_ENSURE\<close> comes from util/ and is not part of the
  sources. The spec calls its failure a raised condition: an exception that carries the
  message.
\<close>

definition Y_ENSURE :: "bool \<Rightarrow> string \<Rightarrow> error + unit" where
  "Y_ENSURE cond msg = (if cond then Inr () else Inl (yexception msg))"

subsection \<open>Data\<close>

text \<open>
  \<open>TFloatFeature\<close> and \<open>TCatFeature\<close> are declared in features.h; model.h reads only
  their \<open>FeatureIndex\<close>, an \<open>int\<close>: a 32-bit word read as a signed value by \<open>sint\<close>. The
  remaining fields live in the record extension.
\<close>

record TFloatFeature =
  FeatureIndex :: "32 word"

record TCatFeature =
  FeatureIndex :: "32 word"

record ('mctr, 'msplit) TMetaData =
  UsedModelCtrs :: "'mctr list"
  BinFeatures :: "'msplit list"
  RepackedBins :: "32 word list"
  EffectiveBinFeaturesBucketCount :: "32 word"

record ('d, 'cat, 'flt, 'oh, 'ctr, 'mctr, 'msplit) TObliviousTrees =
  ApproxDimension :: int
  TreeSplits :: "int list"
  TreeSizes :: "int list"
  TreeStartOffsets :: "int list"
  LeafValues :: "'d list list"
  CatFeatures :: "'cat TCatFeature_scheme list"
  FloatFeatures :: "'flt TFloatFeature_scheme list"
  OneHotFeatures :: "'oh list"
  CtrFeatures :: "'ctr list"
  MetaData :: "('mctr, 'msplit) TMetaData option"

text \<open>A default-constructed \<open>TObliviousTrees\<close>: the member initialisers of the struct.\<close>

definition TObliviousTrees_default ::
  "('d, 'cat, 'flt, 'oh, 'ctr, 'mctr, 'msplit) TObliviousTrees" where
  "TObliviousTrees_default =
     \<lparr>ApproxDimension = 1, TreeSplits = [], TreeSizes = [], TreeStartOffsets = [],
      LeafValues = [], CatFeatures = [], FloatFeatures = [], OneHotFeatures = [],
      CtrFeatures = [], MetaData = None\<rparr>"

subsection \<open>AddBinTree\<close>

text \<open>\<open>TVector::ysize()\<close>: the size as an \<open>int\<close>.\<close>

definition ysize :: "'a list \<Rightarrow> int" where
  "ysize xs = int (length xs)"

text \<open>
  \<open>AddBinTree\<close> (model.h, lines 148-157), statement by statement: the assertion, the
  insertion into \<open>TreeSplits\<close>, the push onto \<open>TreeSizes\<close>, and the push onto
  \<open>TreeStartOffsets\<close> of \<open>0\<close> or of \<open>TreeStartOffsets.back() + binSplits.ysize()\<close>.
\<close>

definition AddBinTree ::
  "int list \<Rightarrow> ('d, 'cat, 'flt, 'oh, 'ctr, 'mctr, 'msplit, 'z) TObliviousTrees_scheme
     \<Rightarrow> error + ('d, 'cat, 'flt, 'oh, 'ctr, 'mctr, 'msplit, 'z) TObliviousTrees_scheme" where
  "AddBinTree binSplits t =
     (case Y_ASSERT (length (TreeSplits t) = length (TreeSizes t)
                     \<and> length (TreeSizes t) = length (TreeStartOffsets t)) of
        Inl e \<Rightarrow> Inl e
      | Inr _ \<Rightarrow>
          (let t1 = t\<lparr>TreeSplits := TreeSplits t @ binSplits\<rparr>;
               t2 = t1\<lparr>TreeSizes := TreeSizes t1 @ [ysize binSplits]\<rparr>
           in if TreeStartOffsets t2 = []
              then Inr (t2\<lparr>TreeStartOffsets := TreeStartOffsets t2 @ [0]\<rparr>)
              else Inr (t2\<lparr>TreeStartOffsets :=
                          TreeStartOffsets t2 @ [last (TreeStartOffsets t2) + ysize binSplits]\<rparr>)))"

text \<open>A sequence of \<open>AddBinTree\<close> calls, stopping at the first failure.\<close>

fun AddBinTrees ::
  "int list list \<Rightarrow> ('d, 'cat, 'flt, 'oh, 'ctr, 'mctr, 'msplit, 'z) TObliviousTrees_scheme
     \<Rightarrow> error + ('d, 'cat, 'flt, 'oh, 'ctr, 'mctr, 'msplit, 'z) TObliviousTrees_scheme" where
  "AddBinTrees [] t = Inr t"
| "AddBinTrees (b # bs) t =
     (case AddBinTree b t of Inl e \<Rightarrow> Inl e | Inr t' \<Rightarrow> AddBinTrees bs t')"

text \<open>
  The tree-store invariant as the struct's comment and the spec state it:
  \<open>TreeStartOffsets[t]\<close> is the offset of the first split of tree \<open>t\<close> in \<open>TreeSplits\<close>.
\<close>

definition TreeStoreInvariant ::
  "('d, 'cat, 'flt, 'oh, 'ctr, 'mctr, 'msplit, 'z) TObliviousTrees_scheme \<Rightarrow> bool" where
  "TreeStoreInvariant t =
     (length (TreeSizes t) = length (TreeStartOffsets t)
      \<and> list_all (\<lambda>i. TreeStartOffsets t ! i =
                        (if i = 0 then 0 else TreeStartOffsets t ! (i - 1) + TreeSizes t ! (i - 1)))
           [0..<length (TreeStartOffsets t)]
      \<and> int (length (TreeSplits t)) = sum_list (TreeSizes t))"

text \<open>
  What \<open>AddBinTree\<close> maintains instead: each offset is the previous offset plus the size
  of the tree at the same position.
\<close>

definition AddBinTreeInvariant ::
  "('d, 'cat, 'flt, 'oh, 'ctr, 'mctr, 'msplit, 'z) TObliviousTrees_scheme \<Rightarrow> bool" where
  "AddBinTreeInvariant t =
     (length (TreeSizes t) = length (TreeStartOffsets t)
      \<and> list_all (\<lambda>i. TreeStartOffsets t ! i =
                        (if i = 0 then 0 else TreeStartOffsets t ! (i - 1) + TreeSizes t ! i))
           [0..<length (TreeStartOffsets t)]
      \<and> int (length (TreeSplits t)) = sum_list (TreeSizes t))"

subsection \<open>Equality\<close>

text \<open>
  \<open>operator==\<close> of \<open>double\<close> and of the descriptor structs is not defined in this header
  (IEEE equality is not reflexive on NaN, and features.h decides which descriptor fields
  count), so the element comparisons are parameters.
\<close>

record ('d, 'cat, 'flt, 'oh, 'ctr) TElemEq =
  eq_double :: "'d \<Rightarrow> 'd \<Rightarrow> bool"
  eq_TCatFeature :: "'cat TCatFeature_scheme \<Rightarrow> 'cat TCatFeature_scheme \<Rightarrow> bool"
  eq_TFloatFeature :: "'flt TFloatFeature_scheme \<Rightarrow> 'flt TFloatFeature_scheme \<Rightarrow> bool"
  eq_TOneHotFeature :: "'oh \<Rightarrow> 'oh \<Rightarrow> bool"
  eq_TCtrFeature :: "'ctr \<Rightarrow> 'ctr \<Rightarrow> bool"

text \<open>\<open>TVector::operator==\<close>: equal sizes and pairwise equal elements.\<close>

definition TVector_eq :: "('a \<Rightarrow> 'a \<Rightarrow> bool) \<Rightarrow> 'a list \<Rightarrow> 'a list \<Rightarrow> bool" where
  "TVector_eq eq xs ys = (length xs = length ys \<and> list_all (\<lambda>(x, y). eq x y) (zip xs ys))"

text \<open>The tuple of references \<open>std::tie\<close> builds in \<open>TObliviousTrees::operator==\<close>.\<close>

definition tie_TObliviousTrees ::
  "('d, 'cat, 'flt, 'oh, 'ctr, 'mctr, 'msplit, 'z) TObliviousTrees_scheme \<Rightarrow>
   int \<times> int list \<times> int list \<times> int list \<times> 'd list list \<times> 'cat TCatFeature_scheme list
     \<times> 'flt TFloatFeature_scheme list \<times> 'oh list \<times> 'ctr list" where
  "tie_TObliviousTrees t =
     (ApproxDimension t, TreeSplits t, TreeSizes t, TreeStartOffsets t, LeafValues t,
      CatFeatures t, FloatFeatures t, OneHotFeatures t, CtrFeatures t)"

text \<open>
  \<open>TObliviousTrees::operator==\<close> (lines 159-178): equality of the two tuples, which is
  component by component with the \<open>operator==\<close> of each component's type.
\<close>

definition TObliviousTrees_eq ::
  "('d, 'cat, 'flt, 'oh, 'ctr) TElemEq \<Rightarrow>
   ('d, 'cat, 'flt, 'oh, 'ctr, 'mctr, 'msplit, 'z) TObliviousTrees_scheme \<Rightarrow>
   ('d, 'cat, 'flt, 'oh, 'ctr, 'mctr, 'msplit, 'z) TObliviousTrees_scheme \<Rightarrow> bool" where
  "TObliviousTrees_eq E a b =
     rel_prod (=) (rel_prod (=) (rel_prod (=) (rel_prod (=)
       (rel_prod (TVector_eq (TVector_eq (eq_double E)))
       (rel_prod (TVector_eq (eq_TCatFeature E))
       (rel_prod (TVector_eq (eq_TFloatFeature E))
       (rel_prod (TVector_eq (eq_TOneHotFeature E)) (TVector_eq (eq_TCtrFeature E)))))))))
       (tie_TObliviousTrees a) (tie_TObliviousTrees b)"

text \<open>The element comparisons of types on which \<open>==\<close> is identity.\<close>

definition identity_eq :: "('d, 'cat, 'flt, 'oh, 'ctr) TElemEq" where
  "identity_eq = \<lparr>eq_double = (=), eq_TCatFeature = (=), eq_TFloatFeature = (=),
                  eq_TOneHotFeature = (=), eq_TCtrFeature = (=)\<rparr>"

subsection \<open>The metadata accessors\<close>

text \<open>
  Lines 200-216 and 250-253: each accessor is \<open>Y_ENSURE(MetaData.Defined(), ...)\<close> followed
  by the read of one field of the cache.
\<close>

definition metadata_msg :: string where
  "metadata_msg = ''metadata should be initialized''"

definition GetUsedModelCtrs ::
  "('d, 'cat, 'flt, 'oh, 'ctr, 'mctr, 'msplit, 'z) TObliviousTrees_scheme \<Rightarrow> error + 'mctr list" where
  "GetUsedModelCtrs t =
     (case Y_ENSURE (MetaData t \<noteq> None) metadata_msg of
        Inl e \<Rightarrow> Inl e | Inr _ \<Rightarrow> Inr (UsedModelCtrs (the (MetaData t))))"

definition GetBinFeatures ::
  "('d, 'cat, 'flt, 'oh, 'ctr, 'mctr, 'msplit, 'z) TObliviousTrees_scheme \<Rightarrow> error + 'msplit list" where
  "GetBinFeatures t =
     (case Y_ENSURE (MetaData t \<noteq> None) metadata_msg of
        Inl e \<Rightarrow> Inl e | Inr _ \<Rightarrow> Inr (BinFeatures (the (MetaData t))))"

definition GetRepackedBins ::
  "('d, 'cat, 'flt, 'oh, 'ctr, 'mctr, 'msplit, 'z) TObliviousTrees_scheme \<Rightarrow> error + 32 word list" where
  "GetRepackedBins t =
     (case Y_ENSURE (MetaData t \<noteq> None) metadata_msg of
        Inl e \<Rightarrow> Inl e | Inr _ \<Rightarrow> Inr (RepackedBins (the (MetaData t))))"

definition GetEffectiveBinaryFeaturesBucketsCount ::
  "('d, 'cat, 'flt, 'oh, 'ctr, 'mctr, 'msplit, 'z) TObliviousTrees_scheme \<Rightarrow> error + 32 word" where
  "GetEffectiveBinaryFeaturesBucketsCount t =
     (case Y_ENSURE (MetaData t \<noteq> None) metadata_msg of
        Inl e \<Rightarrow> Inl e | Inr _ \<Rightarrow> Inr (EffectiveBinFeaturesBucketCount (the (MetaData t))))"

subsection \<open>Feature counts\<close>

text \<open>
  Lines 230-236: \<open>0\<close> on an empty list, else
  \<open>static_cast<size_t>(FloatFeatures.back().FeatureIndex + 1)\<close>. The sum is taken in 32-bit
  \<open>int\<close> (at \<open>INT_MAX\<close> it is the two's complement wrap-around of the compiled code), and the
  conversion to the 64-bit \<open>size_t\<close> extends the sign.
\<close>

definition GetNumFloatFeatures ::
  "('d, 'cat, 'flt, 'oh, 'ctr, 'mctr, 'msplit, 'z) TObliviousTrees_scheme \<Rightarrow> 64 word" where
  "GetNumFloatFeatures t =
     (if FloatFeatures t = [] then 0
      else signed (TFloatFeature.FeatureIndex (last (FloatFeatures t)) + 1))"

text \<open>Lines 238-244: the same for the categorical descriptors.\<close>

definition GetNumCatFeatures ::
  "('d, 'cat, 'flt, 'oh, 'ctr, 'mctr, 'msplit, 'z) TObliviousTrees_scheme \<Rightarrow> 64 word" where
  "GetNumCatFeatures t =
     (if CatFeatures t = [] then 0
      else signed (TCatFeature.FeatureIndex (last (CatFeatures t)) + 1))"

definition GetTreeCount ::
  "('d, 'cat, 'flt, 'oh, 'ctr, 'mctr, 'msplit, 'z) TObliviousTrees_scheme \<Rightarrow> nat" where
  "GetTreeCount t = length (TreeSizes t)"

subsection \<open>TFullModel\<close>

text \<open>
  The model-information dictionary is a \<open>THashMap\<close>, compared as a map; the CTR provider
  is a nullable intrusive pointer to a provider of a type this header does not declare.
\<close>

record ('d, 'cat, 'flt, 'oh, 'ctr, 'mctr, 'msplit, 'p) TFullModel =
  ObliviousTrees :: "('d, 'cat, 'flt, 'oh, 'ctr, 'mctr, 'msplit) TObliviousTrees"
  ModelInfo :: "string \<rightharpoonup> string"
  CtrProvider :: "'p option"

text \<open>\<open>TFullModel::operator==\<close> (lines 307-310): \<open>std::tie(ObliviousTrees, ModelInfo)\<close>.\<close>

definition tie_TFullModel ::
  "('d, 'cat, 'flt, 'oh, 'ctr, 'mctr, 'msplit, 'p, 'z) TFullModel_scheme \<Rightarrow>
   ('d, 'cat, 'flt, 'oh, 'ctr, 'mctr, 'msplit) TObliviousTrees \<times> (string \<rightharpoonup> string)" where
  "tie_TFullModel m = (ObliviousTrees m, ModelInfo m)"

definition TFullModel_eq ::
  "('d, 'cat, 'flt, 'oh, 'ctr) TElemEq \<Rightarrow>
   ('d, 'cat, 'flt, 'oh, 'ctr, 'mctr, 'msplit, 'p, 'z) TFullModel_scheme \<Rightarrow>
   ('d, 'cat, 'flt, 'oh, 'ctr, 'mctr, 'msplit, 'p, 'z) TFullModel_scheme \<Rightarrow> bool" where
  "TFullModel_eq E a b =
     rel_prod (TObliviousTrees_eq E) (=) (tie_TFullModel a) (tie_TFullModel b)"

definition HasCategoricalFeatures ::
  "('d, 'cat, 'flt, 'oh, 'ctr, 'mctr, 'msplit, 'p, 'z) TFullModel_scheme \<Rightarrow> bool" where
  "HasCategoricalFeatures m = (CatFeatures (ObliviousTrees m) \<noteq> [])"

definition TFullModel_GetTreeCount ::
  "('d, 'cat, 'flt, 'oh, 'ctr, 'mctr, 'msplit, 'p, 'z) TFullModel_scheme \<Rightarrow> nat" where
  "TFullModel_GetTreeCount m = length (TreeSizes (ObliviousTrees m))"

subsection \<open>Evaluation\<close>

text \<open>
  \<open>TFullModel::Calc\<close> is declared in model.h (lines 416-420) and its body is not part of the
  sources; neither is the evaluator it calls. The definitions of this section follow the
  contract of section 4.3 of the spec. The outcome of one binary feature on one row (the
  packed byte comparison) is the parameter \<open>binTest\<close> throughout; it is given the metadata
  cache of the model, which holds the catalogue of binary features and their packed
  encoding.
\<close>

text \<open>
  Modelled from the spec: the split references of tree \<open>i\<close>, which the evaluator (not in
  the sources) reads from the store. Section 3: \<open>StartOffsets[t]\<close> is the offset of the
  tree's splits in the shared sequence, \<open>Sizes[t]\<close> their number.
\<close>

definition treeSplitsOf ::
  "('d, 'cat, 'flt, 'oh, 'ctr, 'mctr, 'msplit, 'z) TObliviousTrees_scheme \<Rightarrow> nat \<Rightarrow> int list" where
  "treeSplitsOf t i =
     take (nat (TreeSizes t ! i)) (drop (nat (TreeStartOffsets t ! i)) (TreeSplits t))"

text \<open>
  Modelled from the spec: the leaf resolution of the evaluator (not in the sources).
  Section 4.3: one bit per split of the tree, from the first to the last, "most-recently-
  evaluated split occupying the low bit".
\<close>

definition leafId :: "(int \<Rightarrow> bool) \<Rightarrow> int list \<Rightarrow> nat" where
  "leafId outcome splits = foldl (\<lambda>acc s. 2 * acc + (if outcome s then 1 else 0)) 0 splits"

text \<open>
  Modelled from the spec: what the evaluator (not in the sources) needs of tree \<open>i\<close> to read
  inside the store. Section 3: its splits lie inside \<open>TreeSplits\<close>, and its leaf block has
  length \<open>ApproxDimension * 2^Sizes[i]\<close>.
\<close>

definition treeOk ::
  "('d, 'cat, 'flt, 'oh, 'ctr, 'mctr, 'msplit, 'z) TObliviousTrees_scheme \<Rightarrow> nat \<Rightarrow> bool" where
  "treeOk t i =
     (i < length (TreeSizes t) \<and> i < length (TreeStartOffsets t) \<and> i < length (LeafValues t)
      \<and> 0 \<le> TreeSizes t ! i \<and> 0 \<le> TreeStartOffsets t ! i
      \<and> TreeStartOffsets t ! i + TreeSizes t ! i \<le> int (length (TreeSplits t))
      \<and> int (length (LeafValues t ! i)) = ApproxDimension t * 2 ^ nat (TreeSizes t ! i))"

text \<open>
  Modelled from the spec: the preconditions of \<open>Calc\<close> (body not in the sources). Sections
  3, 4.4 and 7: the metadata cache has been built (evaluating an unfinalized model, or a
  truncated copy before its refresh, is a fail-fast contract violation). Section 4.3: a
  tree range with \<open>treeStart \<le> treeEnd \<le> TreeCount()\<close>, one float and one categorical vector
  per row, each at least as long as the model's feature count, over trees that can be
  read.
\<close>

definition CalcPre ::
  "('d, 'cat, 'flt, 'oh, 'ctr, 'mctr, 'msplit, 'p, 'z) TFullModel_scheme \<Rightarrow>
   'x list list \<Rightarrow> int list list \<Rightarrow> nat \<Rightarrow> nat \<Rightarrow> bool" where
  "CalcPre m floatFeatures catFeatures treeStart treeEnd =
     (MetaData (ObliviousTrees m) \<noteq> None
      \<and> treeStart \<le> treeEnd \<and> treeEnd \<le> TFullModel_GetTreeCount m
      \<and> 0 \<le> ApproxDimension (ObliviousTrees m)
      \<and> length floatFeatures = length catFeatures
      \<and> list_all (\<lambda>row. unat (GetNumFloatFeatures (ObliviousTrees m)) \<le> length row)
           floatFeatures
      \<and> list_all (\<lambda>row. unat (GetNumCatFeatures (ObliviousTrees m)) \<le> length row)
           catFeatures
      \<and> list_all (treeOk (ObliviousTrees m)) [treeStart..<treeEnd])"

text \<open>
  Modelled from the spec: the value one tree contributes (evaluator not in the sources).
  Section 4.3: \<open>LeafValues[tree][leafId(row, tree) * ApproxDimension + dim]\<close>.
\<close>

definition leafValue ::
  "('d, 'cat, 'flt, 'oh, 'ctr, 'mctr, 'msplit, 'z) TObliviousTrees_scheme \<Rightarrow>
   (int \<Rightarrow> bool) \<Rightarrow> nat \<Rightarrow> nat \<Rightarrow> 'd" where
  "leafValue t outcome tree dim =
     LeafValues t ! tree
       ! (leafId outcome (treeSplitsOf t tree) * nat (ApproxDimension t) + dim)"

text \<open>
  Modelled from the spec: \<open>TFullModel::Calc\<close> (declared in lines 416-420, body not in the
  sources). Section 4.3: the output is overwritten with
  \<open>result[row * ApproxDimension + dim] = sum over the trees of the range\<close> of the leaf value
  above; a violated precondition is a fatal contract violation.
\<close>

definition Calc ::
  "(('mctr, 'msplit) TMetaData \<Rightarrow> 'x list \<Rightarrow> int list \<Rightarrow> int \<Rightarrow> bool) \<Rightarrow>
   ('d :: comm_monoid_add, 'cat, 'flt, 'oh, 'ctr, 'mctr, 'msplit, 'p, 'z) TFullModel_scheme \<Rightarrow>
   'x list list \<Rightarrow> int list list \<Rightarrow> nat \<Rightarrow> nat \<Rightarrow> error + 'd list" where
  "Calc binTest m floatFeatures catFeatures treeStart treeEnd =
     (if CalcPre m floatFeatures catFeatures treeStart treeEnd
      then Inr (map (\<lambda>i. let row = i div nat (ApproxDimension (ObliviousTrees m));
                              dim = i mod nat (ApproxDimension (ObliviousTrees m))
                          in (\<Sum>tree\<leftarrow>[treeStart..<treeEnd].
                                leafValue (ObliviousTrees m)
                                  (binTest (the (MetaData (ObliviousTrees m)))
                                     (floatFeatures ! row) (catFeatures ! row)) tree dim))
                    [0..<length floatFeatures * nat (ApproxDimension (ObliviousTrees m))])
      else Inl ContractViolation)"

text \<open>The elementwise sum of a list of vectors of length \<open>n\<close>.\<close>

definition vsum :: "nat \<Rightarrow> ('d :: comm_monoid_add) list list \<Rightarrow> 'd list" where
  "vsum n vs = foldr (map2 (+)) vs (replicate n 0)"

text \<open>The contribution of one tree to every output position.\<close>

definition treeResult ::
  "(('mctr, 'msplit) TMetaData \<Rightarrow> 'x list \<Rightarrow> int list \<Rightarrow> int \<Rightarrow> bool) \<Rightarrow>
   ('d, 'cat, 'flt, 'oh, 'ctr, 'mctr, 'msplit, 'p, 'z) TFullModel_scheme \<Rightarrow>
   'x list list \<Rightarrow> int list list \<Rightarrow> nat \<Rightarrow> 'd list" where
  "treeResult binTest m floatFeatures catFeatures tree =
     map (\<lambda>i. leafValue (ObliviousTrees m)
                 (binTest (the (MetaData (ObliviousTrees m)))
                    (floatFeatures ! (i div nat (ApproxDimension (ObliviousTrees m))))
                    (catFeatures ! (i div nat (ApproxDimension (ObliviousTrees m)))))
                 tree (i mod nat (ApproxDimension (ObliviousTrees m))))
         [0..<length floatFeatures * nat (ApproxDimension (ObliviousTrees m))]"

text \<open>
  Modelled from the spec: the loop of \<open>TFullModel::CalcTreeIntervals\<close> (declared in lines
  395-398, body not in the sources) over the ends of its tree ranges. Section 4.3:
  "cumulative tree ranges advancing by a caller-supplied step"; the last range ends at the
  tree count.
\<close>

function stageEnds :: "nat \<Rightarrow> nat \<Rightarrow> nat \<Rightarrow> nat list" where
  "stageEnds step n cur =
     (if step = 0 \<or> n \<le> cur then []
      else min (cur + step) n # stageEnds step n (min (cur + step) n))"
  by pat_completeness auto
termination
  by (relation "measure (\<lambda>(step, n, cur). n - cur)") auto

declare stageEnds.simps [simp del]

text \<open>The results of a list of calls, or the first error among them.\<close>

fun collect :: "(error + 'a) list \<Rightarrow> error + 'a list" where
  "collect [] = Inr []"
| "collect (r # rs) =
     (case r of
        Inl e \<Rightarrow> Inl e
      | Inr v \<Rightarrow> (case collect rs of Inl e \<Rightarrow> Inl e | Inr vs \<Rightarrow> Inr (v # vs)))"

text \<open>
  Modelled from the spec: \<open>TFullModel::CalcTreeIntervals\<close> (declared in lines 395-398, body
  not in the sources). Section 4.3: it "repeats the full evaluation for cumulative tree
  ranges advancing by a caller-supplied step, returning one result vector per stage".
\<close>

definition CalcTreeIntervals ::
  "(('mctr, 'msplit) TMetaData \<Rightarrow> 'x list \<Rightarrow> int list \<Rightarrow> int \<Rightarrow> bool) \<Rightarrow>
   ('d :: comm_monoid_add, 'cat, 'flt, 'oh, 'ctr, 'mctr, 'msplit, 'p, 'z) TFullModel_scheme \<Rightarrow>
   'x list list \<Rightarrow> int list list \<Rightarrow> nat \<Rightarrow> error + 'd list list" where
  "CalcTreeIntervals binTest m floatFeatures catFeatures incrementStep =
     (if incrementStep = 0 then Inl ContractViolation
      else collect (map (\<lambda>e. Calc binTest m floatFeatures catFeatures 0 e)
                     (stageEnds incrementStep (TFullModel_GetTreeCount m) 0)))"

subsection \<open>Truncation\<close>






subsection \<open>Serialization\<close>

text \<open>
  The flatbuffers object \<open>NCatBoostFbs::TObliviousTrees\<close> (model.fbs.h is generated and not
  part of the sources): \<open>FBDeserialize\<close> reads a scalar and eight vectors from it, each
  vector accessor returning a null pointer when the field is absent.
\<close>

record ('d, 'fcat, 'fflt, 'foh, 'fctr) Fbs_TObliviousTrees =
  fbs_ApproxDimension :: int
  fbs_TreeSplits :: "int list option"
  fbs_TreeSizes :: "int list option"
  fbs_TreeStartOffsets :: "int list option"
  fbs_LeafValues :: "'d list option"
  fbs_CatFeatures :: "'fcat list option"
  fbs_FloatFeatures :: "'fflt list option"
  fbs_OneHotFeatures :: "'foh list option"
  fbs_CtrFeatures :: "'fctr list option"

text \<open>
  The descriptors' own \<open>FBSerialize\<close> and \<open>FBDeserialize\<close> and their default constructors
  are declared in features.h; they are parameters. \<open>de_X fb x\<close> is the state of the
  descriptor \<open>x\<close> after \<open>x.FBDeserialize(fb)\<close>.
\<close>

record ('cat, 'flt, 'oh, 'ctr, 'fcat, 'fflt, 'foh, 'fctr) TFbsCodec =
  ser_TCatFeature :: "'cat TCatFeature_scheme \<Rightarrow> 'fcat"
  de_TCatFeature :: "'fcat \<Rightarrow> 'cat TCatFeature_scheme \<Rightarrow> 'cat TCatFeature_scheme"
  new_TCatFeature :: "'cat TCatFeature_scheme"
  ser_TFloatFeature :: "'flt TFloatFeature_scheme \<Rightarrow> 'fflt"
  de_TFloatFeature :: "'fflt \<Rightarrow> 'flt TFloatFeature_scheme \<Rightarrow> 'flt TFloatFeature_scheme"
  new_TFloatFeature :: "'flt TFloatFeature_scheme"
  ser_TOneHotFeature :: "'oh \<Rightarrow> 'foh"
  de_TOneHotFeature :: "'foh \<Rightarrow> 'oh \<Rightarrow> 'oh"
  new_TOneHotFeature :: "'oh"
  ser_TCtrFeature :: "'ctr \<Rightarrow> 'fctr"
  de_TCtrFeature :: "'fctr \<Rightarrow> 'ctr \<Rightarrow> 'ctr"
  new_TCtrFeature :: "'ctr"

text \<open>\<open>TVector::resize(n)\<close>: the first \<open>n\<close> elements, padded with default-constructed ones.\<close>

definition resize :: "nat \<Rightarrow> 'a \<Rightarrow> 'a list \<Rightarrow> 'a list" where
  "resize n dflt xs = take n xs @ replicate (n - length xs) dflt"

text \<open>
  \<open>ApproxDimension * (1 << TreeSizes[treeId])\<close> in 32-bit \<open>int\<close>: the shift is defined for
  an amount in \<open>[0, 31)\<close> and the product must be representable.
\<close>

definition treeLeafCount :: "int \<Rightarrow> int \<Rightarrow> error + int" where
  "treeLeafCount approxDimension treeSize =
     (if \<not> (0 \<le> treeSize \<and> treeSize < 31) then Inl UndefinedBehaviour
      else if \<not> (- (2 ^ 31) \<le> approxDimension * 2 ^ nat treeSize
                 \<and> approxDimension * 2 ^ nat treeSize < 2 ^ 31) then Inl UndefinedBehaviour
      else Inr (approxDimension * 2 ^ nat treeSize))"

text \<open>
  The loop of lines 124-128 over the tree sizes, with \<open>leafValIter\<close> as the rest of the flat
  array: each tree takes the next \<open>treeLeafCout\<close> values. A negative count or a read past
  the end of the array is undefined.
\<close>

fun readLeafValues :: "int \<Rightarrow> int list \<Rightarrow> 'd list \<Rightarrow> error + 'd list list" where
  "readLeafValues approxDimension [] leafValIter = Inr []"
| "readLeafValues approxDimension (treeSize # treeSizes) leafValIter =
     (case treeLeafCount approxDimension treeSize of
        Inl e \<Rightarrow> Inl e
      | Inr treeLeafCout \<Rightarrow>
          if treeLeafCout < 0 \<or> int (length leafValIter) < treeLeafCout
          then Inl UndefinedBehaviour
          else (case readLeafValues approxDimension treeSizes
                       (drop (nat treeLeafCout) leafValIter) of
                  Inl e \<Rightarrow> Inl e
                | Inr blocks \<Rightarrow> Inr (take (nat treeLeafCout) leafValIter # blocks)))"

text \<open>The macro \<open>FEATURES_ARRAY_DESERIALIZER\<close> (lines 131-137) for one descriptor array.\<close>

definition deserializeFeatures ::
  "('f \<Rightarrow> 'a \<Rightarrow> 'a) \<Rightarrow> 'a \<Rightarrow> 'f list option \<Rightarrow> 'a list \<Rightarrow> 'a list" where
  "deserializeFeatures de dflt fb var =
     (case fb of
        None \<Rightarrow> var
      | Some fs \<Rightarrow> map2 de fs (resize (length fs) dflt var))"

text \<open>\<open>TObliviousTrees::FBDeserialize\<close> (lines 110-143), on the object \<open>t\<close>.\<close>

definition FBDeserialize ::
  "('cat, 'flt, 'oh, 'ctr, 'fcat, 'fflt, 'foh, 'fctr) TFbsCodec \<Rightarrow>
   ('d, 'fcat, 'fflt, 'foh, 'fctr) Fbs_TObliviousTrees \<Rightarrow>
   ('d, 'cat, 'flt, 'oh, 'ctr, 'mctr, 'msplit, 'z) TObliviousTrees_scheme \<Rightarrow>
   error + ('d, 'cat, 'flt, 'oh, 'ctr, 'mctr, 'msplit, 'z) TObliviousTrees_scheme" where
  "FBDeserialize C fbObj t =
     (let t1 = t\<lparr>ApproxDimension := fbs_ApproxDimension fbObj\<rparr>;
          t2 = (case fbs_TreeSplits fbObj of None \<Rightarrow> t1 | Some v \<Rightarrow> t1\<lparr>TreeSplits := v\<rparr>);
          t3 = (case fbs_TreeSizes fbObj of None \<Rightarrow> t2 | Some v \<Rightarrow> t2\<lparr>TreeSizes := v\<rparr>);
          t4 = (case fbs_TreeStartOffsets fbObj of
                  None \<Rightarrow> t3 | Some v \<Rightarrow> t3\<lparr>TreeStartOffsets := v\<rparr>);
          t5 = t4\<lparr>LeafValues := resize (length (TreeSizes t4)) [] (LeafValues t4)\<rparr>
      in case (case fbs_LeafValues fbObj of
                 None \<Rightarrow> Inr (LeafValues t5)
               | Some leafValues \<Rightarrow>
                   readLeafValues (ApproxDimension t5) (TreeSizes t5) leafValues) of
           Inl e \<Rightarrow> Inl e
         | Inr blocks \<Rightarrow>
             Inr (t5\<lparr>LeafValues := blocks,
                     CatFeatures := deserializeFeatures (de_TCatFeature C) (new_TCatFeature C)
                                      (fbs_CatFeatures fbObj) (CatFeatures t5),
                     FloatFeatures := deserializeFeatures (de_TFloatFeature C)
                                      (new_TFloatFeature C)
                                      (fbs_FloatFeatures fbObj) (FloatFeatures t5),
                     OneHotFeatures := deserializeFeatures (de_TOneHotFeature C)
                                      (new_TOneHotFeature C)
                                      (fbs_OneHotFeatures fbObj) (OneHotFeatures t5),
                     CtrFeatures := deserializeFeatures (de_TCtrFeature C) (new_TCtrFeature C)
                                      (fbs_CtrFeatures fbObj) (CtrFeatures t5)\<rparr>))"

text \<open>
  Modelled from the spec: \<open>TObliviousTrees::FBSerialize\<close> is declared in model.h (line 104)
  without a body. It writes the structural fields of the store into the flatbuffers
  object, every vector present, the leaf blocks as the one flat array that
  \<open>FBDeserialize\<close> reads back tree by tree.
\<close>

definition FBSerialize ::
  "('cat, 'flt, 'oh, 'ctr, 'fcat, 'fflt, 'foh, 'fctr) TFbsCodec \<Rightarrow>
   ('d, 'cat, 'flt, 'oh, 'ctr, 'mctr, 'msplit, 'z) TObliviousTrees_scheme \<Rightarrow>
   ('d, 'fcat, 'fflt, 'foh, 'fctr) Fbs_TObliviousTrees" where
  "FBSerialize C t =
     \<lparr>fbs_ApproxDimension = ApproxDimension t,
      fbs_TreeSplits = Some (TreeSplits t),
      fbs_TreeSizes = Some (TreeSizes t),
      fbs_TreeStartOffsets = Some (TreeStartOffsets t),
      fbs_LeafValues = Some (concat (LeafValues t)),
      fbs_CatFeatures = Some (map (ser_TCatFeature C) (CatFeatures t)),
      fbs_FloatFeatures = Some (map (ser_TFloatFeature C) (FloatFeatures t)),
      fbs_OneHotFeatures = Some (map (ser_TOneHotFeature C) (OneHotFeatures t)),
      fbs_CtrFeatures = Some (map (ser_TCtrFeature C) (CtrFeatures t))\<rparr>"

text \<open>
  Modelled from the spec: the container that \<open>Save\<close> writes and \<open>Load\<close> reads (its schema is
  not in the sources). Section 6: the serialized tree store with its descriptors, the
  key/value map and the optional provider state. The byte encoding is an opaque boundary
  of the spec and is not modelled.
\<close>

record ('d, 'fcat, 'fflt, 'foh, 'fctr, 'fp) Fbs_TModelCore =
  fbs_ObliviousTrees :: "('d, 'fcat, 'fflt, 'foh, 'fctr) Fbs_TObliviousTrees"
  fbs_InfoMap :: "string \<rightharpoonup> string"
  fbs_CtrProvider :: "'fp option"

text \<open>
  Modelled from the spec: \<open>TFullModel::Save\<close> (declared in line 319, body not in the
  sources). Sections 4.5 and 6: it writes the tree store, the descriptors, the map and the
  provider state into the container.
\<close>

definition Save ::
  "('cat, 'flt, 'oh, 'ctr, 'fcat, 'fflt, 'foh, 'fctr) TFbsCodec \<Rightarrow> ('p \<Rightarrow> 'fp) \<Rightarrow>
   ('d, 'cat, 'flt, 'oh, 'ctr, 'mctr, 'msplit, 'p, 'z) TFullModel_scheme \<Rightarrow>
   ('d, 'fcat, 'fflt, 'foh, 'fctr, 'fp) Fbs_TModelCore" where
  "Save C serProvider m =
     \<lparr>fbs_ObliviousTrees = FBSerialize C (ObliviousTrees m),
      fbs_InfoMap = ModelInfo m,
      fbs_CtrProvider = map_option serProvider (CtrProvider m)\<rparr>"

text \<open>
  Modelled from the spec: \<open>TFullModel::Load\<close> (declared in line 324, body not in the
  sources). Section 4.5: it "must reconstruct Tree Store, Feature Descriptors, and
  metadata map exactly, then invoke" the refresh of the derived state. The tree store is
  read by \<open>FBDeserialize\<close>; the rebuilt metadata (\<open>UpdateMetadata\<close>, not in the sources) is
  the parameter \<open>buildMeta\<close>.
\<close>

definition Load ::
  "('cat, 'flt, 'oh, 'ctr, 'fcat, 'fflt, 'foh, 'fctr) TFbsCodec \<Rightarrow> ('fp \<Rightarrow> 'p) \<Rightarrow>
   (('d, 'cat, 'flt, 'oh, 'ctr, 'mctr, 'msplit) TObliviousTrees \<Rightarrow> ('mctr, 'msplit) TMetaData) \<Rightarrow>
   ('d, 'fcat, 'fflt, 'foh, 'fctr, 'fp) Fbs_TModelCore \<Rightarrow>
   ('d, 'cat, 'flt, 'oh, 'ctr, 'mctr, 'msplit, 'p, 'z) TFullModel_scheme \<Rightarrow>
   error + ('d, 'cat, 'flt, 'oh, 'ctr, 'mctr, 'msplit, 'p, 'z) TFullModel_scheme" where
  "Load C deProvider buildMeta core m =
     (case FBDeserialize C (fbs_ObliviousTrees core) (ObliviousTrees m) of
        Inl e \<Rightarrow> Inl e
      | Inr t \<Rightarrow>
          Inr (m\<lparr>ObliviousTrees := t\<lparr>MetaData := Some (buildMeta t)\<rparr>,
                 ModelInfo := fbs_InfoMap core,
                 CtrProvider := map_option deProvider (fbs_CtrProvider core)\<rparr>))"

text \<open>A default-constructed \<open>TFullModel\<close>.\<close>

definition TFullModel_default ::
  "('d, 'cat, 'flt, 'oh, 'ctr, 'mctr, 'msplit, 'p) TFullModel" where
  "TFullModel_default =
     \<lparr>ObliviousTrees = TObliviousTrees_default, ModelInfo = Map.empty, CtrProvider = None\<rparr>"

text \<open>
  Modelled from the spec: \<open>SerializeModel\<close> (declared in line 517, body not in the sources).
  Section 6: the "symmetric string-based round trip of the same binary layout".
\<close>

definition SerializeModel ::
  "('cat, 'flt, 'oh, 'ctr, 'fcat, 'fflt, 'foh, 'fctr) TFbsCodec \<Rightarrow> ('p \<Rightarrow> 'fp) \<Rightarrow>
   ('d, 'cat, 'flt, 'oh, 'ctr, 'mctr, 'msplit, 'p) TFullModel \<Rightarrow>
   ('d, 'fcat, 'fflt, 'foh, 'fctr, 'fp) Fbs_TModelCore" where
  "SerializeModel C serProvider model = Save C serProvider model"

text \<open>
  Modelled from the spec: \<open>DeserializeModel\<close> (declared in line 523, body not in the
  sources). Section 6: the inverse of \<open>SerializeModel\<close>; it loads into a fresh model.
\<close>

definition DeserializeModel ::
  "('cat, 'flt, 'oh, 'ctr, 'fcat, 'fflt, 'foh, 'fctr) TFbsCodec \<Rightarrow> ('fp \<Rightarrow> 'p) \<Rightarrow>
   (('d, 'cat, 'flt, 'oh, 'ctr, 'mctr, 'msplit) TObliviousTrees \<Rightarrow> ('mctr, 'msplit) TMetaData) \<Rightarrow>
   ('d, 'fcat, 'fflt, 'foh, 'fctr, 'fp) Fbs_TModelCore \<Rightarrow>
   error + ('d, 'cat, 'flt, 'oh, 'ctr, 'mctr, 'msplit, 'p) TFullModel" where
  "DeserializeModel C deProvider buildMeta serializeModelString =
     Load C deProvider buildMeta serializeModelString TFullModel_default"

text \<open>
  The leaf-block layout of section 3 of the spec: one block per tree, of length
  \<open>ApproxDimension * 2^depth\<close>, with the depth and the length in the range of \<open>int\<close>.
\<close>

definition LeafBlocksOk ::
  "('d, 'cat, 'flt, 'oh, 'ctr, 'mctr, 'msplit, 'z) TObliviousTrees_scheme \<Rightarrow> bool" where
  "LeafBlocksOk t =
     (length (LeafValues t) = length (TreeSizes t)
      \<and> list_all (\<lambda>(treeSize, block).
             0 \<le> treeSize \<and> treeSize < 31
             \<and> ApproxDimension t * 2 ^ nat treeSize < 2 ^ 31
             \<and> int (length block) = ApproxDimension t * 2 ^ nat treeSize)
           (zip (TreeSizes t) (LeafValues t)))"

text \<open>
  A codec for descriptors without further fields: the flatbuffers object of a descriptor
  is the descriptor, and a default-constructed descriptor has \<open>FeatureIndex = -1\<close>.
\<close>

definition plain_codec ::
  "(unit, unit, unit, unit, TCatFeature, TFloatFeature, unit, unit) TFbsCodec" where
  "plain_codec =
     \<lparr>ser_TCatFeature = (\<lambda>d. d), de_TCatFeature = (\<lambda>fb d. fb),
      new_TCatFeature = \<lparr>TCatFeature.FeatureIndex = - 1\<rparr>,
      ser_TFloatFeature = (\<lambda>d. d), de_TFloatFeature = (\<lambda>fb d. fb),
      new_TFloatFeature = \<lparr>TFloatFeature.FeatureIndex = - 1\<rparr>,
      ser_TOneHotFeature = (\<lambda>d. d), de_TOneHotFeature = (\<lambda>fb d. fb),
      new_TOneHotFeature = (),
      ser_TCtrFeature = (\<lambda>d. d), de_TCtrFeature = (\<lambda>fb d. fb),
      new_TCtrFeature = ()\<rparr>"

subsection \<open>An example ensemble\<close>

text \<open>
  Two trees over two float features, one output per row: a tree of depth 2 with leaf
  values \<open>1, 2, 3, 4\<close> and a tree of depth 1 with leaf values \<open>10, 20\<close>. The catalogue has
  one binary feature per float descriptor; binary feature \<open>s\<close> of the catalogue tests
  whether float feature \<open>s\<close> is positive. The model is finalized: its cache is the one the
  example builder derives.
\<close>

definition example_trees :: "(int, unit, unit, unit, unit, unit, unit) TObliviousTrees" where
  "example_trees =
     \<lparr>ApproxDimension = 1, TreeSplits = [0, 1, 0], TreeSizes = [2, 1], TreeStartOffsets = [0, 2],
      LeafValues = [[1, 2, 3, 4], [10, 20]], CatFeatures = [],
      FloatFeatures = [\<lparr>TFloatFeature.FeatureIndex = 0\<rparr>, \<lparr>TFloatFeature.FeatureIndex = 1\<rparr>],
      OneHotFeatures = [], CtrFeatures = [],
      MetaData = Some \<lparr>UsedModelCtrs = [], BinFeatures = [(), ()], RepackedBins = [],
                        EffectiveBinFeaturesBucketCount = 0\<rparr>\<rparr>"

definition example_model ::
  "(int, unit, unit, unit, unit, unit, unit, unit) TFullModel" where
  "example_model =
     \<lparr>ObliviousTrees = example_trees, ModelInfo = [''params'' \<mapsto> ''{}''], CtrProvider = None\<rparr>"

definition example_binTest ::
  "(unit, unit) TMetaData \<Rightarrow> int list \<Rightarrow> int list \<Rightarrow> int \<Rightarrow> bool" where
  "example_binTest md floats cats split =
     (nat split < length (BinFeatures md) \<and> 0 < floats ! nat split)"

text \<open>A single tree of depth 0, and a metadata builder for the examples.\<close>

definition stump_model :: "(int, unit, unit, unit, unit, unit, unit, unit) TFullModel" where
  "stump_model =
     \<lparr>ObliviousTrees = TObliviousTrees_default
        \<lparr>TreeSizes := [0], TreeStartOffsets := [0], LeafValues := [[5]]\<rparr>,
      ModelInfo = Map.empty, CtrProvider = None\<rparr>"

definition example_meta ::
  "(int, unit, unit, unit, unit, unit, unit) TObliviousTrees \<Rightarrow> (unit, unit) TMetaData" where
  "example_meta t =
     \<lparr>UsedModelCtrs = [], BinFeatures = map (\<lambda>_. ()) (FloatFeatures t), RepackedBins = [],
      EffectiveBinFeaturesBucketCount = 0\<rparr>"

subsection \<open>Facts about AddBinTree\<close>

lemma AddBinTree_asserts:
  "AddBinTree bs t = Inl e \<longleftrightarrow>
     e = AssertionFailed \<and>
     \<not> (length (TreeSplits t) = length (TreeSizes t)
        \<and> length (TreeSizes t) = length (TreeStartOffsets t))"
  by (auto simp: AddBinTree_def Y_ASSERT_def Let_def split: if_splits)

lemma AddBinTree_result:
  assumes "AddBinTree bs t = Inr t'"
  shows "TreeSplits t' = TreeSplits t @ bs"
    and "TreeSizes t' = TreeSizes t @ [int (length bs)]"
    and "TreeStartOffsets t' =
           (if TreeStartOffsets t = [] then [0]
            else TreeStartOffsets t @ [last (TreeStartOffsets t) + int (length bs)])"
    and "MetaData t' = MetaData t"
  using assms
  by (auto simp: AddBinTree_def Y_ASSERT_def Let_def ysize_def split: if_splits)

lemma AddBinTree_keeps_invariant:
  assumes "AddBinTree bs t = Inr t'" and "AddBinTreeInvariant t"
  shows "AddBinTreeInvariant t'"
proof -
  note r = AddBinTree_result [OF assms(1)]
  from assms(2) have len: "length (TreeSizes t) = length (TreeStartOffsets t)"
    and rec: "\<And>i. i < length (TreeStartOffsets t) \<Longrightarrow> TreeStartOffsets t ! i =
                 (if i = 0 then 0 else TreeStartOffsets t ! (i - 1) + TreeSizes t ! i)"
    and tot: "int (length (TreeSplits t)) = sum_list (TreeSizes t)"
    by (auto simp: AddBinTreeInvariant_def list_all_iff)
  show ?thesis
  proof (cases "TreeStartOffsets t = []")
    case True
    with r len tot show ?thesis by (simp add: AddBinTreeInvariant_def)
  next
    case False
    let ?n = "length (TreeStartOffsets t)"
    from False r have o': "TreeStartOffsets t' = TreeStartOffsets t @ [last (TreeStartOffsets t) + int (length bs)]"
      by simp
    have "TreeStartOffsets t' ! i =
            (if i = 0 then 0 else TreeStartOffsets t' ! (i - 1) + TreeSizes t' ! i)"
      if "i < length (TreeStartOffsets t')" for i
    proof (cases "i < ?n")
      case True
      then have "i - 1 < ?n" by simp
      with True rec [OF True] len show ?thesis
        by (simp add: o' r(2) nth_append)
    next
      case False
      with that have i: "i = ?n" by (simp add: o')
      with \<open>TreeStartOffsets t \<noteq> []\<close> len show ?thesis
        by (simp add: o' r(2) nth_append last_conv_nth)
    qed
    with len tot r show ?thesis
      by (simp add: AddBinTreeInvariant_def list_all_iff)
  qed
qed

lemma AddBinTrees_invariant:
  "AddBinTrees bss t = Inr t' \<Longrightarrow> AddBinTreeInvariant t \<Longrightarrow> AddBinTreeInvariant t'"
proof (induction bss arbitrary: t)
  case Nil
  then show ?case by simp
next
  case (Cons b bss)
  from Cons.prems(1) obtain u where u: "AddBinTree b t = Inr u" and rest: "AddBinTrees bss u = Inr t'"
    by (auto split: sum.splits)
  from Cons.IH [OF rest AddBinTree_keeps_invariant [OF u Cons.prems(2)]] show ?case .
qed

lemma AddBinTrees_from_default:
  "AddBinTrees bss TObliviousTrees_default = Inr t \<Longrightarrow> AddBinTreeInvariant t"
  by (erule AddBinTrees_invariant) (simp add: AddBinTreeInvariant_def TObliviousTrees_default_def)

text \<open>
  C1. The claim: after every \<open>AddBinTree\<close> call on a store built from empty, the offsets
  satisfy \<open>TreeStartOffsets[t] = TreeStartOffsets[t-1] + TreeSizes[t-1]\<close>. The code adds
  the size of the tree being appended instead of the size of the previous tree: appending
  a tree of one split and then a tree of two splits gives the offsets \<open>[0, 2]\<close>, although
  the second tree starts at position \<open>1\<close> of \<open>TreeSplits\<close>; the invariant is false there.
  Neither call trips the assertion.
\<close>

theorem AddBinTree_offset_of_second_tree:
  "\<exists>t. AddBinTrees [[0], [1, 2]]
          (TObliviousTrees_default :: (int, unit, unit, unit, unit, unit, unit) TObliviousTrees)
        = Inr t
      \<and> TreeSplits t = [0, 1, 2] \<and> TreeSizes t = [1, 2] \<and> TreeStartOffsets t = [0, 2]
      \<and> \<not> TreeStoreInvariant t"
  by (simp add: AddBinTree_def Y_ASSERT_def TObliviousTrees_default_def ysize_def
      TreeStoreInvariant_def Let_def)

text \<open>
  C8. The claim: \<open>AddBinTree\<close> trips its assertion exactly when
  \<open>len(TreeSizes) = len(TreeStartOffsets)\<close> is violated beforehand. The assertion of the
  code also demands \<open>len(TreeSplits) = len(TreeSizes)\<close>, which \<open>AddBinTree\<close> itself breaks
  whenever it appends a tree whose depth is not \<open>1\<close>: after one tree of two splits the
  sizes and offsets have equal length, and the next call fails.
\<close>

theorem AddBinTree_assertion_after_deep_tree:
  "\<exists>t. AddBinTree [0, 1]
          (TObliviousTrees_default :: (int, unit, unit, unit, unit, unit, unit) TObliviousTrees)
        = Inr t
      \<and> length (TreeSizes t) = length (TreeStartOffsets t)
      \<and> AddBinTree [2] t = Inl AssertionFailed"
  by (simp add: AddBinTree_def Y_ASSERT_def TObliviousTrees_default_def ysize_def Let_def)

subsection \<open>Facts about equality\<close>

lemma TVector_eq_refl: "(\<And>x. x \<in> set xs \<Longrightarrow> eq x x) \<Longrightarrow> TVector_eq eq xs xs"
  by (auto simp: TVector_eq_def list_all_iff zip_same)

lemma TVector_eq_identity: "TVector_eq (=) xs ys \<longleftrightarrow> xs = ys"
proof (induction xs arbitrary: ys)
  case Nil
  show ?case by (auto simp: TVector_eq_def)
next
  case (Cons x xs)
  show ?case using Cons.IH by (cases ys) (auto simp: TVector_eq_def)
qed

text \<open>
  C9. \<open>TObliviousTrees::operator==\<close> holds exactly when the nine structural fields are
  pairwise \<open>==\<close>; the metadata cache takes no part, so replacing the cache on either side
  does not change the result, and a value compares equal to a copy with another cache
  whenever its elements compare equal to themselves.
\<close>

theorem TObliviousTrees_eq_structural:
  "(TObliviousTrees_eq E a b \<longleftrightarrow>
      ApproxDimension a = ApproxDimension b \<and> TreeSplits a = TreeSplits b
      \<and> TreeSizes a = TreeSizes b \<and> TreeStartOffsets a = TreeStartOffsets b
      \<and> TVector_eq (TVector_eq (eq_double E)) (LeafValues a) (LeafValues b)
      \<and> TVector_eq (eq_TCatFeature E) (CatFeatures a) (CatFeatures b)
      \<and> TVector_eq (eq_TFloatFeature E) (FloatFeatures a) (FloatFeatures b)
      \<and> TVector_eq (eq_TOneHotFeature E) (OneHotFeatures a) (OneHotFeatures b)
      \<and> TVector_eq (eq_TCtrFeature E) (CtrFeatures a) (CtrFeatures b))
   \<and> TObliviousTrees_eq E (a\<lparr>MetaData := m1\<rparr>) (b\<lparr>MetaData := m2\<rparr>) = TObliviousTrees_eq E a b
   \<and> ((\<forall>x. eq_double E x x) \<and> (\<forall>x. eq_TCatFeature E x x) \<and> (\<forall>x. eq_TFloatFeature E x x)
        \<and> (\<forall>x. eq_TOneHotFeature E x x) \<and> (\<forall>x. eq_TCtrFeature E x x)
      \<longrightarrow> TObliviousTrees_eq E (a\<lparr>MetaData := m1\<rparr>) a)"
  by (simp add: TObliviousTrees_eq_def tie_TObliviousTrees_def TVector_eq_refl)

theorem TObliviousTrees_eq_structural_witness:
  "TObliviousTrees_eq identity_eq
     ((TObliviousTrees_default :: (int, unit, unit, unit, unit, unit, unit) TObliviousTrees)
        \<lparr>TreeSplits := [0], TreeSizes := [1], TreeStartOffsets := [0], LeafValues := [[1, 2]],
         MetaData := Some \<lparr>UsedModelCtrs = [], BinFeatures = [()], RepackedBins = [0],
                           EffectiveBinFeaturesBucketCount = 1\<rparr>\<rparr>)
     (TObliviousTrees_default
        \<lparr>TreeSplits := [0], TreeSizes := [1], TreeStartOffsets := [0], LeafValues := [[1, 2]]\<rparr>)"
  using TObliviousTrees_eq_structural
    [of identity_eq
        "(TObliviousTrees_default :: (int, unit, unit, unit, unit, unit, unit) TObliviousTrees)
           \<lparr>TreeSplits := [0], TreeSizes := [1], TreeStartOffsets := [0], LeafValues := [[1, 2]]\<rparr>"
        "(TObliviousTrees_default :: (int, unit, unit, unit, unit, unit, unit) TObliviousTrees)
           \<lparr>TreeSplits := [0], TreeSizes := [1], TreeStartOffsets := [0], LeafValues := [[1, 2]]\<rparr>"
        "Some \<lparr>UsedModelCtrs = [], BinFeatures = [()], RepackedBins = [0],
              EffectiveBinFeaturesBucketCount = 1\<rparr>"
        None]
  by (simp add: identity_eq_def TObliviousTrees_default_def TVector_eq_def)

text \<open>
  C10. \<open>TFullModel::operator==\<close> compares the oblivious trees and the \<open>ModelInfo\<close> map
  only: it holds exactly when both are equal, whatever CTR providers the two models hold.
\<close>

theorem TFullModel_eq_ignores_provider:
  "(TFullModel_eq E a b \<longleftrightarrow>
      TObliviousTrees_eq E (ObliviousTrees a) (ObliviousTrees b) \<and> ModelInfo a = ModelInfo b)
   \<and> TFullModel_eq E (a\<lparr>CtrProvider := p\<rparr>) (b\<lparr>CtrProvider := q\<rparr>) = TFullModel_eq E a b
   \<and> (TObliviousTrees_eq E (ObliviousTrees a) (ObliviousTrees b) \<and> ModelInfo a = ModelInfo b
      \<longrightarrow> TFullModel_eq E (a\<lparr>CtrProvider := Some x\<rparr>) (b\<lparr>CtrProvider := None\<rparr>)
        \<and> TFullModel_eq E (a\<lparr>CtrProvider := Some x\<rparr>) (b\<lparr>CtrProvider := Some y\<rparr>))"
  by (simp add: TFullModel_eq_def tie_TFullModel_def)

theorem TFullModel_eq_ignores_provider_witness:
  "TFullModel_eq identity_eq
     \<lparr>ObliviousTrees =
        (TObliviousTrees_default :: (int, unit, unit, unit, unit, unit, unit) TObliviousTrees),
      ModelInfo = [''params'' \<mapsto> ''{}''], CtrProvider = Some (1 :: nat)\<rparr>
     \<lparr>ObliviousTrees = TObliviousTrees_default,
      ModelInfo = [''params'' \<mapsto> ''{}''], CtrProvider = None\<rparr>
   \<and> TFullModel_eq identity_eq
     \<lparr>ObliviousTrees =
        (TObliviousTrees_default :: (int, unit, unit, unit, unit, unit, unit) TObliviousTrees),
      ModelInfo = [''params'' \<mapsto> ''{}''], CtrProvider = Some (1 :: nat)\<rparr>
     \<lparr>ObliviousTrees = TObliviousTrees_default,
      ModelInfo = [''params'' \<mapsto> ''{}''], CtrProvider = Some 2\<rparr>"
  using TFullModel_eq_ignores_provider
    [of identity_eq
        "\<lparr>ObliviousTrees =
            (TObliviousTrees_default :: (int, unit, unit, unit, unit, unit, unit) TObliviousTrees),
          ModelInfo = [''params'' \<mapsto> ''{}''], CtrProvider = None :: nat option\<rparr>"
        "\<lparr>ObliviousTrees =
            (TObliviousTrees_default :: (int, unit, unit, unit, unit, unit, unit) TObliviousTrees),
          ModelInfo = [''params'' \<mapsto> ''{}''], CtrProvider = None :: nat option\<rparr>"
        None None 1 2]
  by (simp add: identity_eq_def TObliviousTrees_default_def TObliviousTrees_eq_def
      tie_TObliviousTrees_def TVector_eq_def)

subsection \<open>Facts about the metadata accessors\<close>

lemma AddBinTrees_MetaData:
  "AddBinTrees bss t = Inr t' \<Longrightarrow> MetaData t' = MetaData t"
proof (induction bss arbitrary: t)
  case Nil
  then show ?case by simp
next
  case (Cons b bss)
  from Cons.prems obtain u where u: "AddBinTree b t = Inr u" and rest: "AddBinTrees bss u = Inr t'"
    by (auto split: sum.splits)
  from Cons.IH [OF rest] AddBinTree_result(4) [OF u] show ?case by simp
qed

text \<open>
  C7. While the cache is undefined (as in a default-constructed store and in every store
  built from it by \<open>AddBinTree\<close> calls alone) each of the four accessors raises the
  exception "metadata should be initialized"; once the cache holds a value, each returns
  the corresponding field of that value.
\<close>

theorem metadata_accessors_fail_fast:
  "(MetaData t = None \<longrightarrow>
      GetUsedModelCtrs t = Inl (yexception ''metadata should be initialized'')
      \<and> GetBinFeatures t = Inl (yexception ''metadata should be initialized'')
      \<and> GetRepackedBins t = Inl (yexception ''metadata should be initialized'')
      \<and> GetEffectiveBinaryFeaturesBucketsCount t
          = Inl (yexception ''metadata should be initialized''))
   \<and> (MetaData t = Some md \<longrightarrow>
      GetUsedModelCtrs t = Inr (UsedModelCtrs md)
      \<and> GetBinFeatures t = Inr (BinFeatures md)
      \<and> GetRepackedBins t = Inr (RepackedBins md)
      \<and> GetEffectiveBinaryFeaturesBucketsCount t = Inr (EffectiveBinFeaturesBucketCount md))
   \<and> (AddBinTrees bss TObliviousTrees_default = Inr t \<longrightarrow> MetaData t = None)"
proof -
  have "AddBinTrees bss TObliviousTrees_default = Inr t \<Longrightarrow> MetaData t = None"
    using AddBinTrees_MetaData [of bss TObliviousTrees_default t]
    by (simp add: TObliviousTrees_default_def)
  then show ?thesis
    by (simp add: GetUsedModelCtrs_def GetBinFeatures_def GetRepackedBins_def
        GetEffectiveBinaryFeaturesBucketsCount_def Y_ENSURE_def metadata_msg_def)
qed

theorem metadata_accessors_fail_fast_witness:
  "GetUsedModelCtrs
     (TObliviousTrees_default :: (int, unit, unit, unit, unit, nat, nat) TObliviousTrees)
     = Inl (yexception ''metadata should be initialized'')
   \<and> GetEffectiveBinaryFeaturesBucketsCount
     (TObliviousTrees_default :: (int, unit, unit, unit, unit, nat, nat) TObliviousTrees)
     = Inl (yexception ''metadata should be initialized'')
   \<and> GetBinFeatures
     ((TObliviousTrees_default :: (int, unit, unit, unit, unit, nat, nat) TObliviousTrees)
        \<lparr>MetaData := Some \<lparr>UsedModelCtrs = [7], BinFeatures = [3, 4], RepackedBins = [65536, 1],
                           EffectiveBinFeaturesBucketCount = 2\<rparr>\<rparr>) = Inr [3, 4]
   \<and> GetRepackedBins
     ((TObliviousTrees_default :: (int, unit, unit, unit, unit, nat, nat) TObliviousTrees)
        \<lparr>MetaData := Some \<lparr>UsedModelCtrs = [7], BinFeatures = [3, 4], RepackedBins = [65536, 1],
                           EffectiveBinFeaturesBucketCount = 2\<rparr>\<rparr>) = Inr [65536, 1]"
  using metadata_accessors_fail_fast
    [of "TObliviousTrees_default :: (int, unit, unit, unit, unit, nat, nat) TObliviousTrees"
        undefined "[]"]
    metadata_accessors_fail_fast
    [of "(TObliviousTrees_default :: (int, unit, unit, unit, unit, nat, nat) TObliviousTrees)
           \<lparr>MetaData := Some \<lparr>UsedModelCtrs = [7], BinFeatures = [3, 4],
                              RepackedBins = [65536, 1],
                              EffectiveBinFeaturesBucketCount = 2\<rparr>\<rparr>"
        "\<lparr>UsedModelCtrs = [7], BinFeatures = [3, 4], RepackedBins = [65536, 1],
          EffectiveBinFeaturesBucketCount = 2\<rparr>" "[]"]
  by (simp add: TObliviousTrees_default_def)

subsection \<open>Facts about the feature counts\<close>

lemma sorted_last_Max:
  fixes xs :: "int list"
  assumes "sorted xs" and "xs \<noteq> []"
  shows "last xs = Max (set xs)"
proof -
  have "y \<le> last xs" if "y \<in> set xs" for y
  proof -
    from that obtain i where i: "i < length xs" and y: "y = xs ! i"
      by (auto simp: in_set_conv_nth)
    from assms(2) have l: "last xs = xs ! (length xs - 1)"
      by (simp add: last_conv_nth)
    from assms(1) i show ?thesis
      unfolding y l by (intro sorted_nth_mono) auto
  qed
  moreover from assms(2) have "last xs \<in> set xs"
    by simp
  ultimately show ?thesis
    by (intro Max_eqI [symmetric]) auto
qed

lemma sint_succ:
  fixes w :: "32 word"
  assumes "sint w < 2 ^ 31 - 1"
  shows "sint (w + 1) = sint w + 1"
proof -
  have "- (2 ^ 31) \<le> sint w" using sint_ge [of w] by simp
  with assms have "signed_take_bit 31 (sint w + 1) = sint w + 1"
    by (intro signed_take_bit_int_eq_self) simp_all
  then show ?thesis by (simp add: sint_word_add)
qed

lemma uint_signed_nonneg:
  fixes v :: "32 word"
  assumes "0 \<le> sint v"
  shows "uint (signed v :: 64 word) = sint v"
proof -
  have "sint v < 2 ^ 31" using sint_lt [of v] by simp
  then have "sint v < 2 ^ 64" by simp
  with assms have "take_bit 64 (sint v) = sint v"
    by (intro take_bit_int_eq_self) simp_all
  moreover have "(signed v :: 64 word) = word_of_int (sint v)"
    by (rule of_int_sint [symmetric])
  moreover have "uint (word_of_int (sint v) :: 64 word) = take_bit 64 (sint v)"
    by (simp only: uint_word_of_int_eq len_bit0 len_num1 mult_1_right numeral.simps)
       (simp add: uint_word_of_int_eq)
  ultimately show ?thesis by (simp only:)
qed

text \<open>
  The count of a non-empty descriptor list whose indices (as a list of signed values) are
  in non-decreasing order, in terms of the highest index.
\<close>

lemma count_of_ordered:
  fixes idx :: "32 word list"
  assumes "sorted (map sint idx)" and "idx \<noteq> []"
  shows "(signed (last idx + 1) :: 64 word)
           = signed (word_of_int (Max (set (map sint idx))) + 1 :: 32 word)"
    and "- 1 \<le> Max (set (map sint idx)) \<and> Max (set (map sint idx)) < 2 ^ 31 - 1
         \<Longrightarrow> uint (signed (last idx + 1) :: 64 word) = Max (set (map sint idx)) + 1"
proof -
  let ?hi = "Max (set (map sint idx))"
  from assms have hi: "sint (last idx) = ?hi"
    using sorted_last_Max [of "map sint idx"] by (simp add: last_map)
  have "word_of_int (sint (last idx)) = last idx"
    by simp
  with hi have "word_of_int ?hi = last idx"
    by simp
  then show "(signed (last idx + 1) :: 64 word) = signed (word_of_int ?hi + 1 :: 32 word)"
    by simp
  assume "- 1 \<le> ?hi \<and> ?hi < 2 ^ 31 - 1"
  with hi have "sint (last idx + 1) = ?hi + 1" and "0 \<le> sint (last idx + 1)"
    by (simp_all add: sint_succ)
  then show "uint (signed (last idx + 1) :: 64 word) = ?hi + 1"
    by (simp add: uint_signed_nonneg)
qed

text \<open>
  C6 as stated fails: both functions read the last descriptor of the list, which is the
  highest index only when the list is ordered. With the float descriptors of indices
  \<open>5, 2\<close> (in this order) \<open>GetNumFloatFeatures\<close> returns \<open>3\<close>, the highest index plus one
  is \<open>6\<close>; likewise for the categorical descriptors.
\<close>

theorem GetNumFeatures_unordered_counterexample:
  "GetNumFloatFeatures
     ((TObliviousTrees_default :: (int, unit, unit, unit, unit, unit, unit) TObliviousTrees)
        \<lparr>FloatFeatures := [\<lparr>TFloatFeature.FeatureIndex = 5\<rparr>, \<lparr>TFloatFeature.FeatureIndex = 2\<rparr>]\<rparr>)
     = 3
   \<and> Max (set (map (\<lambda>d. sint (TFloatFeature.FeatureIndex d))
        [\<lparr>TFloatFeature.FeatureIndex = 5\<rparr>, \<lparr>TFloatFeature.FeatureIndex = 2\<rparr>])) + 1 = 6
   \<and> GetNumCatFeatures
     ((TObliviousTrees_default :: (int, unit, unit, unit, unit, unit, unit) TObliviousTrees)
        \<lparr>CatFeatures := [\<lparr>TCatFeature.FeatureIndex = 4\<rparr>, \<lparr>TCatFeature.FeatureIndex = 0\<rparr>]\<rparr>)
     = 1
   \<and> Max (set (map (\<lambda>d. sint (TCatFeature.FeatureIndex d))
        [\<lparr>TCatFeature.FeatureIndex = 4\<rparr>, \<lparr>TCatFeature.FeatureIndex = 0\<rparr>])) + 1 = 5"
  by (simp add: GetNumFloatFeatures_def GetNumCatFeatures_def TObliviousTrees_default_def)

text \<open>
  C6, amended. When the float (categorical) descriptor list is ordered by non-decreasing
  \<open>FeatureIndex\<close>, \<open>GetNumFloatFeatures\<close> (\<open>GetNumCatFeatures\<close>) returns the highest
  \<open>FeatureIndex\<close> of the list plus one, the sum taken in 32-bit \<open>int\<close> and converted to
  \<open>size_t\<close>; that is the number \<open>highest + 1\<close> whenever \<open>-1 \<le> highest < 2^31 - 1\<close>. An empty
  list yields \<open>0\<close>.
\<close>

theorem GetNumFeatures_ordered:
  "(sorted (map (\<lambda>d. sint (TFloatFeature.FeatureIndex d)) (FloatFeatures t)) \<longrightarrow>
      GetNumFloatFeatures t =
        (if FloatFeatures t = [] then 0
         else signed (word_of_int
                (Max (set (map (\<lambda>d. sint (TFloatFeature.FeatureIndex d)) (FloatFeatures t))))
                + 1 :: 32 word))
      \<and> (FloatFeatures t \<noteq> []
          \<and> - 1 \<le> Max (set (map (\<lambda>d. sint (TFloatFeature.FeatureIndex d)) (FloatFeatures t)))
          \<and> Max (set (map (\<lambda>d. sint (TFloatFeature.FeatureIndex d)) (FloatFeatures t)))
              < 2 ^ 31 - 1
         \<longrightarrow> uint (GetNumFloatFeatures t)
              = Max (set (map (\<lambda>d. sint (TFloatFeature.FeatureIndex d)) (FloatFeatures t))) + 1))
   \<and> (sorted (map (\<lambda>d. sint (TCatFeature.FeatureIndex d)) (CatFeatures t)) \<longrightarrow>
      GetNumCatFeatures t =
        (if CatFeatures t = [] then 0
         else signed (word_of_int
                (Max (set (map (\<lambda>d. sint (TCatFeature.FeatureIndex d)) (CatFeatures t))))
                + 1 :: 32 word))
      \<and> (CatFeatures t \<noteq> []
          \<and> - 1 \<le> Max (set (map (\<lambda>d. sint (TCatFeature.FeatureIndex d)) (CatFeatures t)))
          \<and> Max (set (map (\<lambda>d. sint (TCatFeature.FeatureIndex d)) (CatFeatures t)))
              < 2 ^ 31 - 1
         \<longrightarrow> uint (GetNumCatFeatures t)
              = Max (set (map (\<lambda>d. sint (TCatFeature.FeatureIndex d)) (CatFeatures t))) + 1))"
proof (intro conjI impI)
  let ?idx = "map TFloatFeature.FeatureIndex (FloatFeatures t)"
  assume s: "sorted (map (\<lambda>d. sint (TFloatFeature.FeatureIndex d)) (FloatFeatures t))"
  then have s': "sorted (map sint ?idx)" by (simp add: comp_def)
  have m: "map sint ?idx = map (\<lambda>d. sint (TFloatFeature.FeatureIndex d)) (FloatFeatures t)"
    by (simp add: comp_def)
  show "GetNumFloatFeatures t =
        (if FloatFeatures t = [] then 0
         else signed (word_of_int
                (Max (set (map (\<lambda>d. sint (TFloatFeature.FeatureIndex d)) (FloatFeatures t))))
                + 1 :: 32 word))"
  proof (cases "FloatFeatures t = []")
    case True
    then show ?thesis by (simp add: GetNumFloatFeatures_def)
  next
    case False
    then have "?idx \<noteq> []" by simp
    from count_of_ordered(1) [OF s' this] False show ?thesis
      unfolding m by (simp add: GetNumFloatFeatures_def last_map)
  qed
  assume r: "FloatFeatures t \<noteq> []
          \<and> - 1 \<le> Max (set (map (\<lambda>d. sint (TFloatFeature.FeatureIndex d)) (FloatFeatures t)))
          \<and> Max (set (map (\<lambda>d. sint (TFloatFeature.FeatureIndex d)) (FloatFeatures t)))
              < 2 ^ 31 - 1"
  then have ne: "?idx \<noteq> []" and ne': "FloatFeatures t \<noteq> []" by simp_all
  have r': "- 1 \<le> Max (set (map sint ?idx)) \<and> Max (set (map sint ?idx)) < 2 ^ 31 - 1"
    unfolding m using r by blast
  have g: "GetNumFloatFeatures t = signed (last ?idx + 1)"
    using ne' by (simp add: GetNumFloatFeatures_def last_map)
  from count_of_ordered(2) [OF s' ne r']
  show "uint (GetNumFloatFeatures t)
        = Max (set (map (\<lambda>d. sint (TFloatFeature.FeatureIndex d)) (FloatFeatures t))) + 1"
    unfolding g m .
next
  let ?idx = "map TCatFeature.FeatureIndex (CatFeatures t)"
  assume s: "sorted (map (\<lambda>d. sint (TCatFeature.FeatureIndex d)) (CatFeatures t))"
  then have s': "sorted (map sint ?idx)" by (simp add: comp_def)
  have m: "map sint ?idx = map (\<lambda>d. sint (TCatFeature.FeatureIndex d)) (CatFeatures t)"
    by (simp add: comp_def)
  show "GetNumCatFeatures t =
        (if CatFeatures t = [] then 0
         else signed (word_of_int
                (Max (set (map (\<lambda>d. sint (TCatFeature.FeatureIndex d)) (CatFeatures t))))
                + 1 :: 32 word))"
  proof (cases "CatFeatures t = []")
    case True
    then show ?thesis by (simp add: GetNumCatFeatures_def)
  next
    case False
    then have "?idx \<noteq> []" by simp
    from count_of_ordered(1) [OF s' this] False show ?thesis
      unfolding m by (simp add: GetNumCatFeatures_def last_map)
  qed
  assume r: "CatFeatures t \<noteq> []
          \<and> - 1 \<le> Max (set (map (\<lambda>d. sint (TCatFeature.FeatureIndex d)) (CatFeatures t)))
          \<and> Max (set (map (\<lambda>d. sint (TCatFeature.FeatureIndex d)) (CatFeatures t)))
              < 2 ^ 31 - 1"
  then have ne: "?idx \<noteq> []" and ne': "CatFeatures t \<noteq> []" by simp_all
  have r': "- 1 \<le> Max (set (map sint ?idx)) \<and> Max (set (map sint ?idx)) < 2 ^ 31 - 1"
    unfolding m using r by blast
  have g: "GetNumCatFeatures t = signed (last ?idx + 1)"
    using ne' by (simp add: GetNumCatFeatures_def last_map)
  from count_of_ordered(2) [OF s' ne r']
  show "uint (GetNumCatFeatures t)
        = Max (set (map (\<lambda>d. sint (TCatFeature.FeatureIndex d)) (CatFeatures t))) + 1"
    unfolding g m .
qed

theorem GetNumFeatures_ordered_witness:
  "GetNumFloatFeatures
     ((TObliviousTrees_default :: (int, unit, unit, unit, unit, unit, unit) TObliviousTrees)
        \<lparr>FloatFeatures := [\<lparr>TFloatFeature.FeatureIndex = 0\<rparr>, \<lparr>TFloatFeature.FeatureIndex = 2\<rparr>],
         CatFeatures := [\<lparr>TCatFeature.FeatureIndex = 1\<rparr>]\<rparr>) = 3
   \<and> GetNumCatFeatures
     ((TObliviousTrees_default :: (int, unit, unit, unit, unit, unit, unit) TObliviousTrees)
        \<lparr>FloatFeatures := [\<lparr>TFloatFeature.FeatureIndex = 0\<rparr>, \<lparr>TFloatFeature.FeatureIndex = 2\<rparr>],
         CatFeatures := [\<lparr>TCatFeature.FeatureIndex = 1\<rparr>]\<rparr>) = 2
   \<and> GetNumFloatFeatures
     (TObliviousTrees_default :: (int, unit, unit, unit, unit, unit, unit) TObliviousTrees) = 0
   \<and> GetNumFloatFeatures
     ((TObliviousTrees_default :: (int, unit, unit, unit, unit, unit, unit) TObliviousTrees)
        \<lparr>FloatFeatures := [\<lparr>TFloatFeature.FeatureIndex = 7\<rparr>,
                           \<lparr>TFloatFeature.FeatureIndex = 2147483647\<rparr>]\<rparr>)
     = 18446744071562067968"
  using GetNumFeatures_ordered
    [of "(TObliviousTrees_default :: (int, unit, unit, unit, unit, unit, unit) TObliviousTrees)
           \<lparr>FloatFeatures := [\<lparr>TFloatFeature.FeatureIndex = 0\<rparr>,
                              \<lparr>TFloatFeature.FeatureIndex = 2\<rparr>],
            CatFeatures := [\<lparr>TCatFeature.FeatureIndex = 1\<rparr>]\<rparr>"]
    GetNumFeatures_ordered
    [of "TObliviousTrees_default :: (int, unit, unit, unit, unit, unit, unit) TObliviousTrees"]
    GetNumFeatures_ordered
    [of "(TObliviousTrees_default :: (int, unit, unit, unit, unit, unit, unit) TObliviousTrees)
           \<lparr>FloatFeatures := [\<lparr>TFloatFeature.FeatureIndex = 7\<rparr>,
                              \<lparr>TFloatFeature.FeatureIndex = 2147483647\<rparr>]\<rparr>"]
  by (simp add: TObliviousTrees_default_def)

subsection \<open>Facts about evaluation\<close>

lemma CalcPre_sub:
  "CalcPre m f c b e \<Longrightarrow> b \<le> b' \<Longrightarrow> b' \<le> e' \<Longrightarrow> e' \<le> e \<Longrightarrow> CalcPre m f c b' e'"
  by (auto simp: CalcPre_def list_all_iff)

lemma map2_add_upt:
  "map2 (+) (map g [0..<n]) (map h [0..<n]) = map (\<lambda>i. g i + h i) [0..<n]"
  by (simp add: list_eq_iff_nth_eq)

lemma vsum_map:
  "vsum n (map (\<lambda>t. map (g t) [0..<n]) ts) = map (\<lambda>i. \<Sum>t\<leftarrow>ts. g t i) [0..<n]"
proof (induction ts)
  case Nil
  show ?case by (simp add: vsum_def map_replicate_const)
next
  case (Cons t ts)
  then show ?case by (simp add: vsum_def map2_add_upt)
qed

lemma Calc_single:
  assumes "CalcPre m f c t (Suc t)"
  shows "Calc binTest m f c t (Suc t) = Inr (treeResult binTest m f c t)"
  using assms by (simp add: Calc_def treeResult_def Let_def)

lemma Calc_range:
  assumes "CalcPre m f c b e"
  shows "Calc binTest m f c b e =
     Inr (vsum (length f * nat (ApproxDimension (ObliviousTrees m)))
            (map (treeResult binTest m f c) [b..<e]))"
  using assms unfolding treeResult_def vsum_map
  by (simp add: Calc_def Let_def)

text \<open>
  C2. When the preconditions of \<open>Calc\<close> hold for the full range \<open>[0, N)\<close>, the full
  evaluation returns, so does the evaluation of every single tree \<open>[t, t + 1)\<close>, and the
  full result is the elementwise sum of the single-tree results.
\<close>

theorem Calc_additive:
  assumes "CalcPre m f c 0 (TFullModel_GetTreeCount m)"
  shows "\<exists>r rs. Calc binTest m f c 0 (TFullModel_GetTreeCount m) = Inr r
           \<and> length rs = TFullModel_GetTreeCount m
           \<and> (\<forall>t < TFullModel_GetTreeCount m. Calc binTest m f c t (Suc t) = Inr (rs ! t))
           \<and> r = vsum (length f * nat (ApproxDimension (ObliviousTrees m))) rs"
proof -
  let ?N = "TFullModel_GetTreeCount m"
  let ?rs = "map (treeResult binTest m f c) [0..<?N]"
  have "Calc binTest m f c t (Suc t) = Inr (?rs ! t)" if "t < ?N" for t
    using that Calc_single [OF CalcPre_sub [OF assms, of t "Suc t"]] by simp
  with Calc_range [OF assms, of binTest] show ?thesis
    by (intro exI [of _ "vsum (length f * nat (ApproxDimension (ObliviousTrees m))) ?rs"]
        exI [of _ ?rs]) simp
qed

theorem Calc_additive_witness:
  "CalcPre example_model [[1, 0], [1, 1]] [[], []] 0 (TFullModel_GetTreeCount example_model)
   \<and> Calc example_binTest example_model [[1, 0], [1, 1]] [[], []] 0 2 = Inr [23, 24]
   \<and> Calc example_binTest example_model [[1, 0], [1, 1]] [[], []] 0 1 = Inr [3, 4]
   \<and> Calc example_binTest example_model [[1, 0], [1, 1]] [[], []] 1 2 = Inr [20, 20]
   \<and> vsum 2 [[3, 4], [20, 20]] = [23, 24 :: int]"
proof -
  have pre: "CalcPre example_model [[1, 0], [1, 1]] [[], []] 0
               (TFullModel_GetTreeCount example_model)"
    by code_simp
  have vals: "Calc example_binTest example_model [[1, 0], [1, 1]] [[], []] 0 2 = Inr [23, 24]
    \<and> Calc example_binTest example_model [[1, 0], [1, 1]] [[], []] 0 1 = Inr [3, 4]
    \<and> Calc example_binTest example_model [[1, 0], [1, 1]] [[], []] 1 2 = Inr [20, 20]
    \<and> vsum 2 [[3, 4], [20, 20]] = [23, 24 :: int]"
    by code_simp
  from Calc_additive [OF pre, of example_binTest] pre vals show ?thesis
    by simp
qed

subsection \<open>Facts about staged evaluation\<close>

lemma stage_count_less:
  fixes step :: nat
  assumes "0 < step"
  shows "j * step < n \<longleftrightarrow> j < (n + step - 1) div step"
proof -
  have "j < (n + step - 1) div step \<longleftrightarrow> Suc j \<le> (n + step - 1) div step"
    by auto
  also have "\<dots> \<longleftrightarrow> Suc j * step \<le> n + step - 1"
    using assms by (simp add: less_eq_div_iff_mult_less_eq)
  also have "\<dots> \<longleftrightarrow> j * step < n"
    using assms by auto
  finally show ?thesis by simp
qed

lemma stageEnds_done: "n \<le> cur \<Longrightarrow> stageEnds step n cur = []"
  by (subst stageEnds.simps) simp

lemma stageEnds_closed:
  assumes "0 < step"
  shows "stageEnds step n (j * step) =
           map (\<lambda>k. min (k * step) n) [Suc j..<Suc ((n + step - 1) div step)]"
proof (induction "n - j * step" arbitrary: j rule: less_induct)
  case less
  let ?c = "(n + step - 1) div step"
  show ?case
  proof (cases "j * step < n")
    case False
    then have "\<not> j < ?c" using stage_count_less [OF assms, of j n] by simp
    then have e: "[Suc j..<Suc ?c] = []" by (simp del: upt_Suc)
    from False show ?thesis unfolding e by (simp add: stageEnds_done)
  next
    case True
    then have jc: "j < ?c" using stage_count_less [OF assms, of j n] by simp
    have unfold: "stageEnds step n (j * step) =
        min (j * step + step) n # stageEnds step n (min (j * step + step) n)"
      using True assms by (subst stageEnds.simps) simp
    have rest: "stageEnds step n (min (j * step + step) n) =
        map (\<lambda>k. min (k * step) n) [Suc (Suc j)..<Suc ?c]"
    proof (cases "j * step + step < n")
      case True
      then have m: "min (j * step + step) n = Suc j * step" by simp
      have "n - Suc j * step < n - j * step" using True assms by simp
      from less [OF this] show ?thesis unfolding m .
    next
      case False
      then have "\<not> Suc j < ?c" using stage_count_less [OF assms, of "Suc j" n] by simp
      then have e: "[Suc (Suc j)..<Suc ?c] = []" by (simp del: upt_Suc)
      from False have "n \<le> min (j * step + step) n" by simp
      from stageEnds_done [OF this] show ?thesis unfolding e by simp
    qed
    have "[Suc j..<Suc ?c] = Suc j # [Suc (Suc j)..<Suc ?c]"
      using jc by (simp del: upt_Suc add: upt_conv_Cons)
    with unfold rest show ?thesis by (simp del: upt_Suc)
  qed
qed

lemma collect_map_Inr:
  "(\<And>x. x \<in> set xs \<Longrightarrow> g x = Inr (h x)) \<Longrightarrow> collect (map g xs) = Inr (map h xs)"
  by (induction xs) auto

text \<open>
  C3. For a positive step and inputs that meet the preconditions of \<open>Calc\<close> on the full
  range, \<open>CalcTreeIntervals\<close> returns one vector per stage, \<open>ceil(N / step)\<close> of them, and
  stage \<open>k\<close> (counted from 1) is the evaluation of the cumulative range
  \<open>[0, min(k * step, N))\<close>.
\<close>

theorem CalcTreeIntervals_prefix:
  assumes "0 < step" and "CalcPre m f c 0 (TFullModel_GetTreeCount m)"
  shows "\<exists>stages. CalcTreeIntervals binTest m f c step = Inr stages
           \<and> length stages = (TFullModel_GetTreeCount m + step - 1) div step
           \<and> (\<forall>k. 1 \<le> k \<and> k \<le> length stages \<longrightarrow>
                 Calc binTest m f c 0 (min (k * step) (TFullModel_GetTreeCount m))
                   = Inr (stages ! (k - 1)))"
proof -
  let ?N = "TFullModel_GetTreeCount m"
  let ?c = "(?N + step - 1) div step"
  let ?h = "\<lambda>e. vsum (length f * nat (ApproxDimension (ObliviousTrees m)))
                  (map (treeResult binTest m f c) [0..<e])"
  let ?ends = "map (\<lambda>k. min (k * step) ?N) [Suc 0..<Suc ?c]"
  have ends: "stageEnds step ?N 0 = ?ends"
    using stageEnds_closed [OF assms(1), of ?N 0] by (simp del: upt_Suc)
  have calc: "Calc binTest m f c 0 e = Inr (?h e)" if "e \<le> ?N" for e
    using Calc_range [OF CalcPre_sub [OF assms(2), of 0 e], of binTest] that by simp
  have "collect (map (\<lambda>e. Calc binTest m f c 0 e) ?ends) = Inr (map ?h ?ends)"
    by (rule collect_map_Inr) (auto simp: calc)
  then have res: "CalcTreeIntervals binTest m f c step = Inr (map ?h ?ends)"
    using assms(1) ends by (simp add: CalcTreeIntervals_def)
  have len: "length (map ?h ?ends) = ?c"
    by (simp del: upt_Suc)
  have nth: "Calc binTest m f c 0 (min (k * step) ?N) = Inr (map ?h ?ends ! (k - 1))"
    if "1 \<le> k \<and> k \<le> length (map ?h ?ends)" for k
  proof -
    from that len have k: "1 \<le> k" "k \<le> ?c" by simp_all
    then have "k - 1 < length [Suc 0..<Suc ?c]" by (simp del: upt_Suc)
    then have "map ?h ?ends ! (k - 1) = ?h (min (([Suc 0..<Suc ?c] ! (k - 1)) * step) ?N)"
      by (simp del: upt_Suc)
    also from k have "[Suc 0..<Suc ?c] ! (k - 1) = k"
      by (simp del: upt_Suc)
    finally show ?thesis using calc [of "min (k * step) ?N"] by simp
  qed
  show ?thesis
  proof (intro exI conjI allI impI)
    show "CalcTreeIntervals binTest m f c step = Inr (map ?h ?ends)" by (rule res)
    show "length (map ?h ?ends) = ?c" by (rule len)
    show "Calc binTest m f c 0 (min (k * step) ?N) = Inr (map ?h ?ends ! (k - 1))"
      if "1 \<le> k \<and> k \<le> length (map ?h ?ends)" for k
      using that by (rule nth)
  qed
qed

theorem CalcTreeIntervals_prefix_witness:
  "(0 :: nat) < 1
   \<and> CalcPre example_model [[1, 0], [1, 1]] [[], []] 0 (TFullModel_GetTreeCount example_model)
   \<and> CalcTreeIntervals example_binTest example_model [[1, 0], [1, 1]] [[], []] 1
       = Inr [[3, 4], [23, 24]]
   \<and> Calc example_binTest example_model [[1, 0], [1, 1]] [[], []] 0 (min (1 * 1) 2) = Inr [3, 4]
   \<and> Calc example_binTest example_model [[1, 0], [1, 1]] [[], []] 0 (min (2 * 1) 2) = Inr [23, 24]
   \<and> CalcTreeIntervals example_binTest example_model [[1, 0], [1, 1]] [[], []] 3
       = Inr [[23, 24]]"
proof -
  have pre: "CalcPre example_model [[1, 0], [1, 1]] [[], []] 0
               (TFullModel_GetTreeCount example_model)"
    by code_simp
  have vals:
    "CalcTreeIntervals example_binTest example_model [[1, 0], [1, 1]] [[], []] 1
       = Inr [[3, 4], [23, 24]]
     \<and> Calc example_binTest example_model [[1, 0], [1, 1]] [[], []] 0 (min (1 * 1) 2)
       = Inr [3, 4]
     \<and> Calc example_binTest example_model [[1, 0], [1, 1]] [[], []] 0 (min (2 * 1) 2)
       = Inr [23, 24]
     \<and> CalcTreeIntervals example_binTest example_model [[1, 0], [1, 1]] [[], []] 3
       = Inr [[23, 24]]"
    by code_simp
  have step: "(0 :: nat) < 1" by simp
  from CalcTreeIntervals_prefix [OF step pre, of example_binTest] pre vals show ?thesis
    by simp
qed

subsection \<open>Facts about truncation\<close>












subsection \<open>Facts about serialization\<close>

lemma length_resize: "length (resize n dflt xs) = n"
  by (simp add: resize_def)

lemma readLeafValues_concat:
  assumes "length sizes = length blocks"
    and "list_all (\<lambda>(treeSize, block).
             0 \<le> treeSize \<and> treeSize < 31
             \<and> ad * 2 ^ nat treeSize < 2 ^ 31
             \<and> int (length block) = ad * 2 ^ nat treeSize)
           (zip sizes blocks)"
  shows "readLeafValues ad sizes (concat blocks) = Inr blocks"
  using assms
proof (induction sizes blocks rule: list_induct2)
  case Nil
  show ?case by simp
next
  case (Cons s sizes blk blocks)
  from Cons.prems have s: "0 \<le> s" "s < 31" and lt: "ad * 2 ^ nat s < 2 ^ 31"
    and len: "int (length blk) = ad * 2 ^ nat s"
    and rest: "list_all (\<lambda>(treeSize, block).
             0 \<le> treeSize \<and> treeSize < 31
             \<and> ad * 2 ^ nat treeSize < 2 ^ 31
             \<and> int (length block) = ad * 2 ^ nat treeSize)
           (zip sizes blocks)"
    by simp_all
  from len have "0 \<le> ad * 2 ^ nat s" by (metis of_nat_0_le_iff)
  with s lt len have cnt: "treeLeafCount ad s = Inr (int (length blk))"
    by (simp add: treeLeafCount_def)
  from Cons.IH [OF rest] cnt show ?case by simp
qed

lemma deserializeFeatures_roundtrip:
  assumes "\<And>x old. de (ser x) old = x"
  shows "deserializeFeatures de dflt (Some (map ser xs)) var = xs"
  by (simp add: deserializeFeatures_def list_eq_iff_nth_eq length_resize assms)

lemma FBDeserialize_FBSerialize:
  assumes ok: "LeafBlocksOk t"
    and cat: "\<And>x old. de_TCatFeature C (ser_TCatFeature C x) old = x"
    and flt: "\<And>x old. de_TFloatFeature C (ser_TFloatFeature C x) old = x"
    and oh: "\<And>x old. de_TOneHotFeature C (ser_TOneHotFeature C x) old = x"
    and ctr: "\<And>x old. de_TCtrFeature C (ser_TCtrFeature C x) old = x"
  shows "\<exists>t'. FBDeserialize C (FBSerialize C t) t0 = Inr t'
           \<and> tie_TObliviousTrees t' = tie_TObliviousTrees t
           \<and> MetaData t' = MetaData t0"
proof -
  from ok have "readLeafValues (ApproxDimension t) (TreeSizes t) (concat (LeafValues t))
                  = Inr (LeafValues t)"
    by (intro readLeafValues_concat) (simp_all add: LeafBlocksOk_def)
  then show ?thesis
    by (simp add: FBDeserialize_def FBSerialize_def Let_def tie_TObliviousTrees_def
        deserializeFeatures_roundtrip [of "de_TCatFeature C" "ser_TCatFeature C", OF cat]
        deserializeFeatures_roundtrip [of "de_TFloatFeature C" "ser_TFloatFeature C", OF flt]
        deserializeFeatures_roundtrip [of "de_TOneHotFeature C" "ser_TOneHotFeature C", OF oh]
        deserializeFeatures_roundtrip [of "de_TCtrFeature C" "ser_TCtrFeature C", OF ctr])
qed

lemma Load_Save:
  assumes ok: "LeafBlocksOk (ObliviousTrees m)"
    and cat: "\<forall>x old. de_TCatFeature C (ser_TCatFeature C x) old = x"
    and flt: "\<forall>x old. de_TFloatFeature C (ser_TFloatFeature C x) old = x"
    and oh: "\<forall>x old. de_TOneHotFeature C (ser_TOneHotFeature C x) old = x"
    and ctr: "\<forall>x old. de_TCtrFeature C (ser_TCtrFeature C x) old = x"
  shows "\<exists>m'. Load C deProvider buildMeta (Save C serProvider m) m0 = Inr m'
           \<and> tie_TObliviousTrees (ObliviousTrees m') = tie_TObliviousTrees (ObliviousTrees m)
           \<and> ModelInfo m' = ModelInfo m
           \<and> TFullModel_eq identity_eq m' m"
proof -
  from FBDeserialize_FBSerialize [OF ok, of C "ObliviousTrees m0"] cat flt oh ctr
  obtain t' where
    de: "FBDeserialize C (FBSerialize C (ObliviousTrees m)) (ObliviousTrees m0) = Inr t'"
    and tie: "tie_TObliviousTrees t' = tie_TObliviousTrees (ObliviousTrees m)"
    by blast
  let ?m' = "m0\<lparr>ObliviousTrees := t'\<lparr>MetaData := Some (buildMeta t')\<rparr>,
                 ModelInfo := ModelInfo m,
                 CtrProvider := map_option deProvider (map_option serProvider (CtrProvider m))\<rparr>"
  have load: "Load C deProvider buildMeta (Save C serProvider m) m0 = Inr ?m'"
    by (simp add: Load_def Save_def de)
  have tie': "tie_TObliviousTrees (ObliviousTrees ?m') = tie_TObliviousTrees (ObliviousTrees m)"
    using tie by (simp add: tie_TObliviousTrees_def)
  then have "TObliviousTrees_eq identity_eq (ObliviousTrees ?m') (ObliviousTrees m)"
    by (simp add: TObliviousTrees_eq_def identity_eq_def TVector_eq_identity [abs_def]
        tie_TObliviousTrees_def)
  then have "TFullModel_eq identity_eq ?m' m"
    by (simp add: TFullModel_eq_def tie_TFullModel_def)
  with load tie' show ?thesis
    by (intro exI [of _ ?m']) simp
qed

text \<open>
  C4. For a model whose leaf blocks have the layout of section 3 of the spec, and
  descriptors whose own serialization round-trips, loading what \<open>Save\<close> wrote (into any
  model object, and by \<open>DeserializeModel\<close> into a fresh one) succeeds and rebuilds the nine
  structural fields of the tree store and the \<open>ModelInfo\<close> map exactly; the loaded model
  compares equal to the original.
\<close>

theorem serialization_round_trip:
  assumes "LeafBlocksOk (ObliviousTrees m)"
    and "\<forall>x old. de_TCatFeature C (ser_TCatFeature C x) old = x"
    and "\<forall>x old. de_TFloatFeature C (ser_TFloatFeature C x) old = x"
    and "\<forall>x old. de_TOneHotFeature C (ser_TOneHotFeature C x) old = x"
    and "\<forall>x old. de_TCtrFeature C (ser_TCtrFeature C x) old = x"
  shows "(\<exists>m'. Load C deProvider buildMeta (Save C serProvider m) m0 = Inr m'
            \<and> tie_TObliviousTrees (ObliviousTrees m') = tie_TObliviousTrees (ObliviousTrees m)
            \<and> ModelInfo m' = ModelInfo m
            \<and> TFullModel_eq identity_eq m' m)
       \<and> (\<exists>m'. DeserializeModel C deProvider buildMeta (SerializeModel C serProvider m) = Inr m'
            \<and> tie_TObliviousTrees (ObliviousTrees m') = tie_TObliviousTrees (ObliviousTrees m)
            \<and> ModelInfo m' = ModelInfo m
            \<and> TFullModel_eq identity_eq m' m)"
  unfolding DeserializeModel_def SerializeModel_def
  using Load_Save [OF assms] by blast

theorem serialization_round_trip_witness:
  "LeafBlocksOk (ObliviousTrees example_model) \<and> LeafBlocksOk (ObliviousTrees stump_model)
   \<and> LeafBlocksOk (ObliviousTrees
        (TFullModel_default :: (int, unit, unit, unit, unit, unit, unit, unit) TFullModel))
   \<and> (\<exists>m'. DeserializeModel plain_codec id example_meta
               (SerializeModel plain_codec id example_model) = Inr m'
          \<and> TFullModel_eq identity_eq m' example_model)
   \<and> (\<exists>m'. DeserializeModel plain_codec id example_meta
               (SerializeModel plain_codec id stump_model) = Inr m'
          \<and> TFullModel_eq identity_eq m' stump_model)
   \<and> (\<exists>m'. Load plain_codec id example_meta
               (Save plain_codec id
                  (TFullModel_default :: (int, unit, unit, unit, unit, unit, unit, unit) TFullModel))
               example_model = Inr m'
          \<and> TFullModel_eq identity_eq m' TFullModel_default)
   \<and> (case DeserializeModel plain_codec id example_meta
              (SerializeModel plain_codec id example_model) of
         Inl _ \<Rightarrow> False
       | Inr m' \<Rightarrow> LeafValues (ObliviousTrees m') = [[1, 2, 3, 4], [10, 20]]
           \<and> TreeSplits (ObliviousTrees m') = [0, 1, 0]
           \<and> ModelInfo m' ''params'' = Some ''{}'')"
proof -
  have ok: "LeafBlocksOk (ObliviousTrees example_model)"
    "LeafBlocksOk (ObliviousTrees stump_model)"
    "LeafBlocksOk (ObliviousTrees
        (TFullModel_default :: (int, unit, unit, unit, unit, unit, unit, unit) TFullModel))"
    by code_simp+
  have codec:
    "\<forall>x old. de_TCatFeature plain_codec (ser_TCatFeature plain_codec x) old = x"
    "\<forall>x old. de_TFloatFeature plain_codec (ser_TFloatFeature plain_codec x) old = x"
    "\<forall>x old. de_TOneHotFeature plain_codec (ser_TOneHotFeature plain_codec x) old = x"
    "\<forall>x old. de_TCtrFeature plain_codec (ser_TCtrFeature plain_codec x) old = x"
    by (simp_all add: plain_codec_def)
  have vals:
    "(case DeserializeModel plain_codec id example_meta
              (SerializeModel plain_codec id example_model) of
         Inl _ \<Rightarrow> False
       | Inr m' \<Rightarrow> LeafValues (ObliviousTrees m') = [[1, 2, 3, 4], [10, 20]]
           \<and> TreeSplits (ObliviousTrees m') = [0, 1, 0]
           \<and> ModelInfo m' ''params'' = Some ''{}'')"
    by code_simp
  from serialization_round_trip [OF ok(1) codec, of id example_meta id]
    serialization_round_trip [OF ok(2) codec, of id example_meta id]
    serialization_round_trip [OF ok(3) codec, of id example_meta id example_model]
    ok vals
  show ?thesis by blast
qed

end
